theory Spec2Isabelle
  imports Main "HOL-Library.Sublist" "HOL-Library.Multiset"
begin

section \<open>JavaScript values that the crawler inspects\<close>

text \<open>
  \<open>lib/Crawler.js\<close> wires a crawl engine (simplecrawler), a document parser (cheerio) and
  the suite's own logger, error handler, hash processor, title validator and pattern
  matcher together. The functions of \<open>Crawler.js\<close> are embedded below one by one, under
  their own names. What they call in other modules is either a field of the record
  \<open>collaborators\<close> (a function whose result the crawler only passes on) or an entry of the
  call trace (a call made for its effect).

  A value that may be \<open>undefined\<close> or \<open>null\<close> is an \<open>option\<close>. A string is falsy when
  it is absent or empty.
\<close>

definition truthy :: "string option \<Rightarrow> bool" where
  "truthy v = (case v of None \<Rightarrow> False | Some s \<Rightarrow> s \<noteq> [])"

text \<open>Coercion inside a template literal: an absent value prints as \<open>null\<close>.\<close>

definition template :: "string option \<Rightarrow> string" where
  "template v = (case v of None \<Rightarrow> ''null'' | Some s \<Rightarrow> s)"

datatype js_value = JBool bool | JNum int | JStr string | JNull

definition truthy_value :: "js_value option \<Rightarrow> bool" where
  "truthy_value v =
     (case v of
        None \<Rightarrow> False
      | Some (JBool b) \<Rightarrow> b
      | Some (JNum n) \<Rightarrow> n \<noteq> 0
      | Some (JStr s) \<Rightarrow> s \<noteq> []
      | Some JNull \<Rightarrow> False)"

subsection \<open>\<open>String.prototype.indexOf\<close>\<close>

fun indexOf_at :: "nat \<Rightarrow> string \<Rightarrow> string \<Rightarrow> int" where
  "indexOf_at i pat [] = (if pat = [] then int i else - 1)"
| "indexOf_at i pat (c # cs) =
     (if prefix pat (c # cs) then int i else indexOf_at (Suc i) pat cs)"

definition indexOf :: "string \<Rightarrow> string \<Rightarrow> int" where
  "indexOf s pat = indexOf_at 0 pat s"

subsection \<open>The regular expressions of the module\<close>

text \<open>
  \<open>mailtoMatcher = /mailto:/i\<close> is a literal, not anchored, case-insensitive. Under the
  flag \<open>i\<close> two characters agree when their upper-case forms agree; characters are bytes
  here, and only the ASCII letters have another case.
\<close>

definition canonicalize :: "char \<Rightarrow> char" where
  "canonicalize c =
     (case map_of (zip ''abcdefghijklmnopqrstuvwxyz'' ''ABCDEFGHIJKLMNOPQRSTUVWXYZ'') c of
        Some u \<Rightarrow> u
      | None \<Rightarrow> c)"

fun matches_at :: "string \<Rightarrow> string \<Rightarrow> bool" where
  "matches_at [] s = True"
| "matches_at (p # ps) [] = False"
| "matches_at (p # ps) (c # cs) = (canonicalize p = canonicalize c \<and> matches_at ps cs)"

fun regex_test :: "string \<Rightarrow> string \<Rightarrow> bool" where
  "regex_test pat [] = matches_at pat []"
| "regex_test pat (c # cs) = (matches_at pat (c # cs) \<or> regex_test pat cs)"

definition mailtoMatcher_test :: "string \<Rightarrow> bool" where
  "mailtoMatcher_test considerURL = regex_test ''mailto:'' considerURL"

text \<open>
  \<open>strContent.replace(/URL\(s\)/g, '')\<close>: every occurrence of the six characters
  \<open>URL(s)\<close> is deleted, scanning from the left; the scan resumes after a deleted match.
\<close>

fun replace_URLs :: "string \<Rightarrow> string" where
  "replace_URLs (a # b # c # d # e # f # rest) =
     (if [a, b, c, d, e, f] = ''URL(s)'' then replace_URLs rest
      else a # replace_URLs (b # c # d # e # f # rest))"
| "replace_URLs s = s"

section \<open>Documents and the selectors the crawler uses\<close>

text \<open>
  A parsed document is the forest of nodes under its root. Tag and attribute names are
  as the parser delivers them.
\<close>

datatype node =
    Element (tag: string) (attribs: "(string \<times> string) list") (children: "node list")
  | Text string

definition attr :: "node \<Rightarrow> string \<Rightarrow> string option" where
  "attr n name = (case n of Element t as cs \<Rightarrow> map_of as name | Text s \<Rightarrow> None)"

text \<open>All elements of a subtree, the root first, in document order.\<close>

fun elements :: "node \<Rightarrow> node list" where
  "elements (Element t as cs) = Element t as cs # concat (map elements cs)"
| "elements (Text s) = []"

definition all_elements :: "node list \<Rightarrow> node list" where
  "all_elements doc = concat (map elements doc)"

text \<open>The selector \<open>pre,code,svg\<close>.\<close>

definition is_pre_code_svg :: "node \<Rightarrow> bool" where
  "is_pre_code_svg n =
     (case n of Element t as cs \<Rightarrow> t = ''pre'' \<or> t = ''code'' \<or> t = ''svg'' | Text s \<Rightarrow> False)"

text \<open>The selector \<open>a[href]\<close>: an \<open>a\<close> element that has the attribute, whatever its value.\<close>

definition is_a_href :: "node \<Rightarrow> bool" where
  "is_a_href n =
     (case n of Element t as cs \<Rightarrow> t = ''a'' \<and> map_of as ''href'' \<noteq> None | Text s \<Rightarrow> False)"

definition select_a_href :: "node list \<Rightarrow> node list" where
  "select_a_href doc = filter is_a_href (all_elements doc)"

text \<open>
  \<open>$('pre,code,svg').remove()\<close> detaches every matching element, with its subtree, from
  its parent.
\<close>

fun remove_node :: "node \<Rightarrow> node" where
  "remove_node (Element t as cs) =
     Element t as (map remove_node (filter (\<lambda>c. \<not> is_pre_code_svg c) cs))"
| "remove_node (Text s) = Text s"

definition remove_pre_code_svg :: "node list \<Rightarrow> node list" where
  "remove_pre_code_svg doc = map remove_node (filter (\<lambda>c. \<not> is_pre_code_svg c) doc)"

section \<open>Lodash: \<open>uniq\<close> and \<open>shuffle\<close>\<close>

text \<open>\<open>_.uniq\<close> keeps the first occurrence of every value, in order.\<close>

fun baseUniq :: "'a list \<Rightarrow> 'a list \<Rightarrow> 'a list" where
  "baseUniq result [] = result"
| "baseUniq result (x # xs) =
     (if x \<in> set result then baseUniq result xs else baseUniq (result @ [x]) xs)"

definition uniq :: "'a list \<Rightarrow> 'a list" where
  "uniq array = baseUniq [] array"

text \<open>
  \<open>_.shuffle\<close> copies the array and runs Fisher and Yates' exchange over it: position
  \<open>index\<close> is exchanged with a position drawn from \<open>index .. length - 1\<close>. The draws of
  \<open>Math.random\<close> are the list \<open>rand\<close>, one natural number per step, reduced into the
  range; when the list is exhausted the draw is 0.
\<close>

function shuffleSelf :: "nat \<Rightarrow> nat list \<Rightarrow> 'a list \<Rightarrow> 'a list" where
  "shuffleSelf index rand array =
     (if index < length array then
        let r = (case rand of [] \<Rightarrow> 0 | x # _ \<Rightarrow> x);
            j = index + r mod (length array - index);
            v = array ! j
        in shuffleSelf (Suc index) (tl rand) ((array[j := array ! index])[index := v])
      else array)"
  by pat_completeness auto
termination
  by (relation "measure (\<lambda>(index, rand, array). length array - index)") auto

declare shuffleSelf.simps [simp del]

definition shuffle :: "nat list \<Rightarrow> 'a list \<Rightarrow> 'a list" where
  "shuffle rand array = shuffleSelf 0 rand array"

section \<open>Queue items, configuration and collaborators\<close>

record stateData =
  contentType :: "string option"

record queueItem =
  url :: string
  host :: string
  stateData :: stateData

record config =
  rootUrl :: "string option"
  strictCiphers :: bool
  simplecrawlerConfig :: "(string \<times> js_value) list option"
  reportSpoolInterval :: "int option"
  excludePatterns :: "string list option"
  includePatterns :: "string list option"
  additionalPaths :: "string list option"
  titlePattern :: "string option"

text \<open>What \<open>URL.parse\<close> returns, as far as the crawler reads it.\<close>

record urlObject =
  protocol :: "string option"
  hostname :: "string option"
  port :: "string option"
  path :: "string option"

text \<open>The object \<open>getTitleValidationFailure\<close> returns on a mismatch.\<close>

record titleValidationFailure =
  failure_titlePattern :: string
  failure_titleText :: string

datatype error = TypeError | InvalidURL | EngineError

text \<open>
  Calls into the other modules, the engine and the runtime that are made for their
  effect, in the order in which they are made. A document passed to a call is the document
  as it is at the moment of the call.
\<close>

datatype event =
    FindSupportedHashes string "node list"
  | GetTitleValidationFailure "node list"
  | HandleTitleError string string
  | RegisterExpectedHash "string option" queueItem
  | OldDiscoverResources string queueItem
  | LogIgnore queueItem
  | HandleFetchServerError int queueItem
  | HandleFetchError queueItem string
  | HandleFetchClientError queueItem string string
  | HandleQueueError string string
  | LogSuccess queueItem
  | RegisterLink string "string option"
  | LogRedirect queueItem string
  | LogDisallowed string
  | NewSimplecrawler string
  | QueueURL string
  | SetInterval nat int
  | ClearInterval nat
  | FindErrors
  | Report
  | Start

text \<open>
  Functions of the parser, the engine, the runtime and the suite's other modules whose
  results the crawler uses. \<open>html\<close> is \<open>$.html()\<close>; \<open>oldDiscoverResources\<close> is the engine's
  own link discovery, saved before it is overridden; \<open>engine_host\<close> is the host the engine
  derives from its seed, and \<open>None\<close> for a seed on which the engine's constructor throws;
  \<open>report\<close> is the logger's exit code, a function of the calls made so far.
\<close>

record collaborators =
  cheerio_load :: "string \<Rightarrow> node list"
  html :: "node list \<Rightarrow> string"
  oldDiscoverResources :: "string \<Rightarrow> queueItem \<Rightarrow> string list"
  getTitleValidationFailure :: "string option \<Rightarrow> node list \<Rightarrow> titleValidationFailure option"
  getFirstMatchingPattern :: "string list option \<Rightarrow> string \<Rightarrow> string option \<Rightarrow> string option"
  URL_parse :: "string \<Rightarrow> urlObject option"
  engine_host :: "string \<Rightarrow> string option"
  report :: "event list \<Rightarrow> int"

text \<open>The engine object, as far as the crawler reads and writes it.\<close>

record crawler =
  crawler_host :: js_value
  settings :: "(string \<times> js_value) list"
  fetchConditions :: "(queueItem \<Rightarrow> bool \<times> event list) list"

section \<open>\<open>checkTitle\<close> and \<open>discoverResources\<close>\<close>

definition checkTitle :: "collaborators \<Rightarrow> config \<Rightarrow> string \<Rightarrow> node list \<Rightarrow> event list" where
  "checkTitle env config pageUrl doc =
     GetTitleValidationFailure doc #
     (case getTitleValidationFailure env (titlePattern config) doc of
        None \<Rightarrow> []
      | Some failure \<Rightarrow>
          [HandleTitleError pageUrl
             (''pattern: '' @ failure_titlePattern failure @
              '' failed on title: '' @ failure_titleText failure)])"

text \<open>
  The override installed by \<open>initDiscoverResources\<close>. The buffer is its UTF-8 text. The
  result is the trace of the calls made and the list returned, whose entries are URLs or
  \<open>null\<close>; reading \<open>indexOf\<close> of an absent content type throws.
\<close>

definition discoverResources ::
  "collaborators \<Rightarrow> config \<Rightarrow> crawler \<Rightarrow> nat list \<Rightarrow> string \<Rightarrow> queueItem
     \<Rightarrow> error + (event list \<times> string option list)" where
  "discoverResources env config crawler rand buf queueItem =
     (case contentType (stateData queueItem) of
        None \<Rightarrow> Inl TypeError
      | Some ct \<Rightarrow>
          if indexOf ct ''text/html'' = 0 then
            let strContent = replace_URLs buf;
                doc = cheerio_load env strContent;
                t1 = [FindSupportedHashes (url queueItem) doc]
            in if JStr (host queueItem) = crawler_host crawler then
                 let t2 = (if truthy (titlePattern config)
                           then checkTitle env config (url queueItem) doc else []);
                     pruned = remove_pre_code_svg doc;
                     t3 = map (\<lambda>n. RegisterExpectedHash (attr n ''href'') queueItem)
                            (select_a_href pruned);
                     t4 = [OldDiscoverResources (html env pruned) queueItem];
                     list = oldDiscoverResources env (html env pruned) queueItem;
                     list = map (\<lambda>considerURL.
                              if mailtoMatcher_test considerURL then None else Some considerURL)
                            list
                 in Inr (t1 @ t2 @ t3 @ t4, shuffle rand (uniq list))
               else Inr (t1, [])
          else Inr ([], []))"

section \<open>The fetch condition\<close>

text \<open>
  The closure that \<open>initIncludeExcludePatterns\<close> hands to \<open>addFetchCondition\<close>. It captures
  \<open>hasExclude\<close> and \<open>hasInclude\<close> as computed at installation. The first matching pattern is
  tested for truthiness.
\<close>

definition fetchCondition ::
  "collaborators \<Rightarrow> config \<Rightarrow> bool \<Rightarrow> bool \<Rightarrow> queueItem \<Rightarrow> bool \<times> event list" where
  "fetchCondition env config hasExclude hasInclude parsedURL =
     (let shouldFetch = True;
          shouldFetch =
            (if hasExclude then
               let firstMatchingExcludePattern =
                     getFirstMatchingPattern env (excludePatterns config) (url parsedURL)
                       (rootUrl config)
               in shouldFetch \<and> \<not> truthy firstMatchingExcludePattern
             else shouldFetch);
          shouldFetch =
            (if hasInclude then
               let firstMatchingIncludePattern =
                     getFirstMatchingPattern env (includePatterns config) (url parsedURL)
                       (rootUrl config)
               in shouldFetch \<and> truthy firstMatchingIncludePattern
             else shouldFetch)
      in (shouldFetch, if \<not> shouldFetch then [LogIgnore parsedURL] else []))"

text \<open>\<open>patterns && patterns.length > 0\<close>.\<close>

definition hasPatterns :: "string list option \<Rightarrow> bool" where
  "hasPatterns patterns = (case patterns of None \<Rightarrow> False | Some ps \<Rightarrow> length ps > 0)"

definition initIncludeExcludePatterns :: "collaborators \<Rightarrow> config \<Rightarrow> crawler \<Rightarrow> crawler" where
  "initIncludeExcludePatterns env config crawler =
     (let hasExclude = hasPatterns (excludePatterns config);
          hasInclude = hasPatterns (includePatterns config)
      in if hasExclude \<or> hasInclude then
           crawler\<lparr>fetchConditions :=
             fetchConditions crawler @ [fetchCondition env config hasExclude hasInclude]\<rparr>
         else crawler)"

text \<open>
  The engine asks its fetch conditions in the order of their installation and fetches
  only when each of them answers true; it stops asking at the first refusal.
\<close>

fun evaluateFetchConditions ::
  "(queueItem \<Rightarrow> bool \<times> event list) list \<Rightarrow> queueItem \<Rightarrow> bool \<times> event list" where
  "evaluateFetchConditions [] parsedURL = (True, [])"
| "evaluateFetchConditions (c # cs) parsedURL =
     (case c parsedURL of
        (False, t) \<Rightarrow> (False, t)
      | (True, t) \<Rightarrow>
          (case evaluateFetchConditions cs parsedURL of (ok, t') \<Rightarrow> (ok, t @ t')))"

section \<open>The process and the initialisation of a crawl\<close>

text \<open>
  What outlives a call: the module variable \<open>spooledReportTimer\<close>, the interval timers the
  runtime keeps alive, \<open>process.exitCode\<close>, the TLS settings, and the trace of calls. Console
  output through \<open>cursor\<close> is not recorded.
\<close>

record world =
  spooledReportTimer :: "nat option"
  activeIntervals :: "nat set"
  nextTimer :: nat
  exitCode :: "int option"
  tls_DEFAULT_CIPHERS :: "string option"
  NODE_TLS_REJECT_UNAUTHORIZED :: "string option"
  trace :: "event list"

definition emit :: "event list \<Rightarrow> world \<Rightarrow> world" where
  "emit t w = w\<lparr>trace := trace w @ t\<rparr>"

text \<open>
  The runtime's timers: every \<open>setInterval\<close> returns a handle not handed out before, and
  the timer stays active until \<open>clearInterval\<close> is called with its handle. The callback
  that \<open>initSpool\<close> registers reads the engine's queue and writes to the console only.
\<close>

definition setInterval :: "int \<Rightarrow> world \<Rightarrow> nat \<times> world" where
  "setInterval ms w =
     (nextTimer w,
      emit [SetInterval (nextTimer w) ms]
        (w\<lparr>activeIntervals := insert (nextTimer w) (activeIntervals w),
            nextTimer := Suc (nextTimer w)\<rparr>))"

definition clearInterval :: "nat \<Rightarrow> world \<Rightarrow> world" where
  "clearInterval t w = emit [ClearInterval t] (w\<lparr>activeIntervals := activeIntervals w - {t}\<rparr>)"

definition setConfigRootUrl :: "config \<Rightarrow> urlObject \<Rightarrow> config" where
  "setConfigRootUrl config crawlerSeedUrl =
     (let portString = [];
          protocolString =
            (if truthy (protocol crawlerSeedUrl) then template (protocol crawlerSeedUrl)
             else ''https:'');
          portString =
            (if truthy (port crawlerSeedUrl) then '':'' @ template (port crawlerSeedUrl)
             else portString)
      in config\<lparr>rootUrl :=
           Some (protocolString @ ''//'' @ template (hostname crawlerSeedUrl) @ portString)\<rparr>)"

definition initTls :: "config \<Rightarrow> world \<Rightarrow> world" where
  "initTls config w =
     (let w = (if \<not> strictCiphers config then w\<lparr>tls_DEFAULT_CIPHERS := Some ''ALL''\<rparr> else w)
      in if (case simplecrawlerConfig config of
               None \<Rightarrow> False
             | Some kv \<Rightarrow> truthy_value (map_of kv ''ignoreInvalidSSL''))
         then w\<lparr>NODE_TLS_REJECT_UNAUTHORIZED := Some ''0''\<rparr>
         else w)"

definition initSpool :: "config \<Rightarrow> crawler \<Rightarrow> world \<Rightarrow> world" where
  "initSpool config crawler w =
     (case reportSpoolInterval config of
        None \<Rightarrow> w
      | Some ms \<Rightarrow>
          if ms > 0 then
            (case setInterval ms w of (t, w') \<Rightarrow> w'\<lparr>spooledReportTimer := Some t\<rparr>)
          else w)"

text \<open>
  \<open>crawler[key] = value\<close> for every entry of \<open>config.simplecrawlerConfig\<close>. The assignment
  replaces whatever the engine had under the key, its methods included. A setting is a
  value of the configuration and no function, so a method that a setting has replaced
  cannot be called any more: the call throws a \<open>TypeError\<close>. (The engine's own
  \<open>discoverResources\<close>, which \<open>initDiscoverResources\<close> saves after the injection, is the
  collaborator \<open>oldDiscoverResources\<close> and as such a function.)
\<close>

definition setProperty :: "string \<times> js_value \<Rightarrow> crawler \<Rightarrow> crawler" where
  "setProperty kv crawler =
     (if fst kv = ''host'' then crawler\<lparr>crawler_host := snd kv\<rparr>
      else crawler\<lparr>settings := settings crawler @ [kv]\<rparr>)"

definition injectCrawlerConfig :: "config \<Rightarrow> crawler \<Rightarrow> crawler" where
  "injectCrawlerConfig config crawler =
     (case simplecrawlerConfig config of
        None \<Rightarrow> crawler
      | Some kv \<Rightarrow> fold setProperty kv crawler)"

definition overwritten :: "crawler \<Rightarrow> string \<Rightarrow> bool" where
  "overwritten crawler name = (name \<in> set (map fst (settings crawler)))"

definition initAdditionalPaths :: "config \<Rightarrow> crawler \<Rightarrow> world \<Rightarrow> world" where
  "initAdditionalPaths config crawler w =
     (case additionalPaths config of
        None \<Rightarrow> w
      | Some paths \<Rightarrow> emit (map QueueURL paths) w)"

text \<open>\<open>new Simplecrawler(myUrl)\<close>: the constructor returns the engine, or throws.\<close>

definition newSimplecrawler ::
  "collaborators \<Rightarrow> string \<Rightarrow> world \<Rightarrow> (error + crawler) \<times> world" where
  "newSimplecrawler env myUrl w =
     (case engine_host env myUrl of
        None \<Rightarrow> (Inl EngineError, w)
      | Some h \<Rightarrow>
          (Inr \<lparr>crawler_host = JStr h, settings = [], fetchConditions = []\<rparr>,
           emit [NewSimplecrawler myUrl] w))"

text \<open>
  \<open>initCrawler\<close> returns the engine and the configuration with its root URL set, or throws.
  The second component is the process after the call.
\<close>

definition initCrawler ::
  "collaborators \<Rightarrow> string \<Rightarrow> config \<Rightarrow> world \<Rightarrow> (error + crawler \<times> config) \<times> world" where
  "initCrawler env myUrl config w =
     (case URL_parse env myUrl of
        None \<Rightarrow> (Inl InvalidURL, w)
      | Some crawlerSeedUrl \<Rightarrow>
          if \<not> truthy (protocol crawlerSeedUrl)
             \<or> \<not> truthy (hostname crawlerSeedUrl)
             \<or> \<not> truthy (path crawlerSeedUrl)
          then (Inl InvalidURL, w)
          else
            let config = setConfigRootUrl config crawlerSeedUrl;
                w = initTls config w
            in case newSimplecrawler env myUrl w of
                 (Inl e, w) \<Rightarrow> (Inl e, w)
               | (Inr crawler, w) \<Rightarrow>
                   let w = initAdditionalPaths config crawler w;
                       w = initSpool config crawler w;
                       crawler = injectCrawlerConfig config crawler
                   in (Inr (crawler, config), w))"

section \<open>A crawl: the handlers bound to the engine's events\<close>

text \<open>
  What the handlers of one call of \<open>crawl\<close> close over. After \<open>initCrawler\<close>, \<open>crawl\<close> calls
  three methods of the engine: \<open>addFetchCondition\<close> (in \<open>initIncludeExcludePatterns\<close>, when
  there is a pattern), \<open>on\<close> (first in \<open>initErrorHandlers\<close>) and, last, \<open>start\<close>. Each of the
  calls throws when a setting has replaced the method; what \<open>initCrawler\<close> did to the
  process stays done.
\<close>

record run =
  run_config :: config
  run_crawler :: crawler

definition crawl :: "collaborators \<Rightarrow> string \<Rightarrow> config \<Rightarrow> world \<Rightarrow> (error + run) \<times> world" where
  "crawl env myUrl config w =
     (case initCrawler env myUrl config w of
        (Inl e, w) \<Rightarrow> (Inl e, w)
      | (Inr (crawler, config), w) \<Rightarrow>
          if (hasPatterns (excludePatterns config) \<or> hasPatterns (includePatterns config))
             \<and> overwritten crawler ''addFetchCondition''
          then (Inl TypeError, w)
          else
            let crawler = initIncludeExcludePatterns env config crawler
            in if overwritten crawler ''on'' then (Inl TypeError, w)
               else if overwritten crawler ''start'' then (Inl TypeError, w)
               else (Inr \<lparr>run_config = config, run_crawler = crawler\<rparr>, emit [Start] w))"

text \<open>
  What the engine does to a running crawl: it emits one of its named events, asks the
  fetch conditions about a URL, or calls \<open>discoverResources\<close> on a fetched buffer (with the
  draws the shuffle will use). \<open>handle\<close> is the handlers that \<open>initErrorHandlers\<close> and
  \<open>crawl\<close> bind with \<open>crawler.on\<close>, together with the two overrides that
  \<open>initIncludeExcludePatterns\<close> and \<open>initDiscoverResources\<close> install.
\<close>

datatype engine_event =
    Fetch404 queueItem
  | FetchError queueItem
  | FetchDataError queueItem
  | GzipError queueItem
  | FetchTimeout queueItem
  | FetchClientError queueItem string
  | QueueError string string
  | FetchComplete queueItem
  | DiscoveryComplete queueItem "string option list"
  | FetchRedirect queueItem string
  | FetchDisallowed queueItem
  | Complete
  | AskFetchConditions queueItem
  | Discover "nat list" string queueItem

text \<open>The handler of \<open>complete\<close>.\<close>

definition on_complete :: "collaborators \<Rightarrow> world \<Rightarrow> world" where
  "on_complete env w =
     (let w = (case spooledReportTimer w of None \<Rightarrow> w | Some t \<Rightarrow> clearInterval t w);
          w = emit [FindErrors] w;
          code = report env (trace w);
          w = emit [Report] w
      in w\<lparr>exitCode := Some code\<rparr>)"

definition handle :: "collaborators \<Rightarrow> run \<Rightarrow> engine_event \<Rightarrow> world \<Rightarrow> error + world" where
  "handle env r ev w =
     (case ev of
        Fetch404 queueItem \<Rightarrow> Inr (emit [HandleFetchServerError 404 queueItem] w)
      | FetchError queueItem \<Rightarrow> Inr (emit [HandleFetchError queueItem ''fetcherror''] w)
      | FetchDataError queueItem \<Rightarrow> Inr (emit [HandleFetchError queueItem ''fetchdataerror''] w)
      | GzipError queueItem \<Rightarrow> Inr (emit [HandleFetchError queueItem ''gziperror''] w)
      | FetchTimeout queueItem \<Rightarrow> Inr (emit [HandleFetchError queueItem ''fetchtimeout''] w)
      | FetchClientError queueItem e \<Rightarrow>
          Inr (emit [HandleFetchClientError queueItem ''fetchclienterror'' e] w)
      | QueueError e URLData \<Rightarrow> Inr (emit [HandleQueueError e URLData] w)
      | FetchComplete queueItem \<Rightarrow> Inr (emit [LogSuccess queueItem] w)
      | DiscoveryComplete queueItem resources \<Rightarrow>
          Inr (emit (map (RegisterLink (url queueItem)) resources) w)
      | FetchRedirect queueItem redirectURL \<Rightarrow> Inr (emit [LogRedirect queueItem redirectURL] w)
      | FetchDisallowed queueItem \<Rightarrow> Inr (emit [LogDisallowed (url queueItem)] w)
      | Complete \<Rightarrow> Inr (on_complete env w)
      | AskFetchConditions parsedURL \<Rightarrow>
          Inr (emit (snd (evaluateFetchConditions (fetchConditions (run_crawler r)) parsedURL)) w)
      | Discover rand buf queueItem \<Rightarrow>
          (case discoverResources env (run_config r) (run_crawler r) rand buf queueItem of
             Inl e \<Rightarrow> Inl e
           | Inr (t, resources) \<Rightarrow> Inr (emit t w)))"

text \<open>
  A schedule: the engine events of the crawls running in one process, each with the crawl
  it belongs to, in the order in which they are handled. An exception ends the process.
\<close>

fun handle_all :: "collaborators \<Rightarrow> (run \<times> engine_event) list \<Rightarrow> world \<Rightarrow> error + world" where
  "handle_all env [] w = Inr w"
| "handle_all env ((r, ev) # rest) w =
     (case handle env r ev w of Inl e \<Rightarrow> Inl e | Inr w' \<Rightarrow> handle_all env rest w')"

section \<open>The declared-hash ledger\<close>

text \<open>
  Modelled from the spec: \<open>lib/HashProcessor.js\<close> is not among the sources. Its
  \<open>findSupportedHashes(pageUrl, parsedDocument)\<close> is to "extract every element with an
  \<open>id\<close> or \<open>name\<close> attribute and add pageUrl \<rightarrow> that identifier to the declared-hash
  ledger", a "mapping from normalized URL \<rightarrow> set of ids actually present on that page",
  where a normalized URL is the address "with query string and fragment stripped".
\<close>

definition normalizeUrl :: "string \<Rightarrow> string" where
  "normalizeUrl u = takeWhile (\<lambda>c. c \<noteq> CHR ''?'' \<and> c \<noteq> CHR ''#'') u"

definition identifiers :: "node \<Rightarrow> string list" where
  "identifiers n =
     (case attr n ''id'' of None \<Rightarrow> [] | Some i \<Rightarrow> [i]) @
     (case attr n ''name'' of None \<Rightarrow> [] | Some i \<Rightarrow> [i])"

definition supportedHashes :: "node list \<Rightarrow> string list" where
  "supportedHashes doc = concat (map identifiers (all_elements doc))"

definition findSupportedHashes ::
  "string \<Rightarrow> node list \<Rightarrow> (string \<Rightarrow> string set) \<Rightarrow> (string \<Rightarrow> string set)" where
  "findSupportedHashes pageUrl doc ledger =
     ledger(normalizeUrl pageUrl := ledger (normalizeUrl pageUrl) \<union> set (supportedHashes doc))"

text \<open>The ledger after the calls of a trace, from the empty ledger.\<close>

definition recordDeclared :: "event \<Rightarrow> (string \<Rightarrow> string set) \<Rightarrow> (string \<Rightarrow> string set)" where
  "recordDeclared e ledger =
     (case e of FindSupportedHashes pageUrl doc \<Rightarrow> findSupportedHashes pageUrl doc ledger
              | _ \<Rightarrow> ledger)"

definition declaredHashes :: "event list \<Rightarrow> string \<Rightarrow> string set" where
  "declaredHashes t = fold recordDeclared t (\<lambda>u. {})"

section \<open>Vocabulary of the properties\<close>

text \<open>
  The elements of a document that are no \<open>pre\<close>, \<open>code\<close> or \<open>svg\<close> element and lie in the
  subtree of none.
\<close>

fun outside_pre_code_svg :: "node \<Rightarrow> node list" where
  "outside_pre_code_svg (Element t as cs) =
     (if is_pre_code_svg (Element t as cs) then []
      else Element t as cs # concat (map outside_pre_code_svg cs))"
| "outside_pre_code_svg (Text s) = []"

definition is_title_check :: "event \<Rightarrow> bool" where
  "is_title_check e = (case e of GetTitleValidationFailure doc \<Rightarrow> True | _ \<Rightarrow> False)"

definition is_title_error :: "event \<Rightarrow> bool" where
  "is_title_error e = (case e of HandleTitleError u msg \<Rightarrow> True | _ \<Rightarrow> False)"

definition is_expected_hash :: "event \<Rightarrow> bool" where
  "is_expected_hash e = (case e of RegisterExpectedHash h q \<Rightarrow> True | _ \<Rightarrow> False)"

definition is_declaration :: "event \<Rightarrow> bool" where
  "is_declaration e = (case e of FindSupportedHashes u doc \<Rightarrow> True | _ \<Rightarrow> False)"

definition is_link_discovery :: "event \<Rightarrow> bool" where
  "is_link_discovery e = (case e of OldDiscoverResources s q \<Rightarrow> True | _ \<Rightarrow> False)"

text \<open>A page of type HTML: its declared content type starts with \<open>text/html\<close>.\<close>

definition is_html :: "queueItem \<Rightarrow> bool" where
  "is_html queueItem =
     (case contentType (stateData queueItem) of None \<Rightarrow> False | Some ct \<Rightarrow> prefix ''text/html'' ct)"

definition same_host :: "crawler \<Rightarrow> queueItem \<Rightarrow> bool" where
  "same_host crawler queueItem = (crawler_host crawler = JStr (host queueItem))"

text \<open>A parsed seed URL that has a protocol, a hostname and a path.\<close>

definition has_protocol_hostname_path :: "urlObject option \<Rightarrow> bool" where
  "has_protocol_hostname_path parsed =
     (case parsed of
        None \<Rightarrow> False
      | Some seed \<Rightarrow> truthy (protocol seed) \<and> truthy (hostname seed) \<and> truthy (path seed))"

section \<open>A site to run the definitions on\<close>

definition site_doc :: "node list" where
  "site_doc =
     [Element ''html'' []
        [Element ''head'' [] [Element ''title'' [] [Text ''Welcome'']],
         Element ''body'' []
           [Element ''h2'' [(''id'', ''team'')] [Text ''Team''],
            Element ''a'' [(''href'', ''https://external.example/page#frag'')] [Text ''out''],
            Element ''pre'' []
              [Element ''span'' [(''id'', ''sample'')] [],
               Element ''a'' [(''href'', ''/hidden#h'')] [Text ''in pre'']],
            Element ''a'' [(''href'', ''mailto:a@b.com'')] [Text ''mail'']]]]"

definition site_env :: collaborators where
  "site_env =
     \<lparr>cheerio_load = (\<lambda>s. site_doc),
      html = (\<lambda>doc. ''<html>''),
      oldDiscoverResources = (\<lambda>s q. [''mailto:a@b.com'', ''https://x/y'', ''mailto:c@d.com'']),
      getTitleValidationFailure =
        (\<lambda>p doc. if p = Some ''^Home''
                  then Some \<lparr>failure_titlePattern = ''^Home'', failure_titleText = ''Welcome''\<rparr>
                  else None),
      getFirstMatchingPattern =
        (\<lambda>ps u root. case ps of None \<Rightarrow> None | Some l \<Rightarrow> find (\<lambda>p. prefix p u) l),
      URL_parse =
        (\<lambda>s. if s = ''https://site.test/''
              then Some \<lparr>protocol = Some ''https:'', hostname = Some ''site.test'',
                          port = None, path = Some ''/''\<rparr>
              else if s = ''http://h.test:0/''
              then Some \<lparr>protocol = Some ''http:'', hostname = Some ''h.test'',
                          port = Some ''0'', path = Some ''/''\<rparr>
              else Some \<lparr>protocol = None, hostname = None, port = None, path = Some s\<rparr>),
      engine_host = (\<lambda>s. if s = ''https://site.test/'' then Some ''site.test'' else None),
      report = (\<lambda>t. int (length (filter is_title_error t)))\<rparr>"

definition site_config :: config where
  "site_config =
     \<lparr>rootUrl = Some ''https://site.test'', strictCiphers = True, simplecrawlerConfig = None,
      reportSpoolInterval = Some 1000, excludePatterns = Some [''/private/''],
      includePatterns = Some [''/public/''], additionalPaths = None,
      titlePattern = Some ''^Home''\<rparr>"

definition site_crawler :: crawler where
  "site_crawler = \<lparr>crawler_host = JStr ''site.test'', settings = [], fetchConditions = []\<rparr>"

definition site_page :: queueItem where
  "site_page =
     \<lparr>url = ''https://site.test/'', host = ''site.test'',
      stateData = \<lparr>contentType = Some ''text/html; charset=utf-8''\<rparr>\<rparr>"

definition external_page :: queueItem where
  "external_page =
     \<lparr>url = ''https://external.example/page'', host = ''external.example'',
      stateData = \<lparr>contentType = Some ''text/html''\<rparr>\<rparr>"

definition image_item :: queueItem where
  "image_item =
     \<lparr>url = ''https://site.test/logo.png'', host = ''site.test'',
      stateData = \<lparr>contentType = Some ''image/png''\<rparr>\<rparr>"

text \<open>The crawl that \<open>crawl\<close> sets up for the site.\<close>

definition site_run :: run where
  "site_run =
     \<lparr>run_config = site_config,
      run_crawler = initIncludeExcludePatterns site_env site_config site_crawler\<rparr>"

definition fresh_world :: world where
  "fresh_world =
     \<lparr>spooledReportTimer = None, activeIntervals = {}, nextTimer = 1, exitCode = None,
      tls_DEFAULT_CIPHERS = None, NODE_TLS_REJECT_UNAUTHORIZED = None, trace = []\<rparr>"

section \<open>Facts about the library functions\<close>

lemma indexOf_at_ge: "indexOf_at i pat s = - 1 \<or> int i \<le> indexOf_at i pat s"
  by (induction s arbitrary: i) force+

lemma indexOf_at_iff: "indexOf_at i pat s = int i \<longleftrightarrow> prefix pat s"
proof (cases s)
  case Nil
  then show ?thesis by simp
next
  case (Cons c cs)
  have "indexOf_at (Suc i) pat cs \<noteq> int i"
    using indexOf_at_ge [of "Suc i" pat cs] by auto
  with Cons show ?thesis by simp
qed

lemma indexOf_zero_iff: "indexOf s pat = 0 \<longleftrightarrow> prefix pat s"
  using indexOf_at_iff [of 0 pat s] by (simp add: indexOf_def)

lemma set_baseUniq: "set (baseUniq result xs) = set result \<union> set xs"
  by (induction xs arbitrary: result) auto

lemma distinct_baseUniq: "distinct result \<Longrightarrow> distinct (baseUniq result xs)"
  by (induction xs arbitrary: result) auto

lemma set_uniq: "set (uniq xs) = set xs"
  by (simp add: uniq_def set_baseUniq)

lemma distinct_uniq: "distinct (uniq xs)"
  by (simp add: uniq_def distinct_baseUniq)

lemma mset_shuffleSelf: "mset (shuffleSelf index rand array) = mset array"
proof (induction index rand array rule: shuffleSelf.induct)
  case (1 index rand array)
  show ?case
  proof (cases "index < length array")
    case True
    define j where "j = index + (case rand of [] \<Rightarrow> 0 | x # _ \<Rightarrow> x) mod (length array - index)"
    have "(case rand of [] \<Rightarrow> 0 | x # _ \<Rightarrow> x) mod (length array - index) < length array - index"
      using True by simp
    then have j: "j < length array"
      unfolding j_def by linarith
    have "mset (shuffleSelf index rand array)
        = mset (shuffleSelf (Suc index) (tl rand) ((array[j := array ! index])[index := array ! j]))"
      using True by (subst shuffleSelf.simps) (simp add: j_def Let_def)
    also have "\<dots> = mset ((array[j := array ! index])[index := array ! j])"
      using "1.IH" [OF True refl, of j "array ! j"] by (simp add: j_def)
    also have "\<dots> = mset array"
      using mset_swap [OF True j] by simp
    finally show ?thesis .
  next
    case False
    then show ?thesis by (subst shuffleSelf.simps) simp
  qed
qed

lemma mset_shuffle: "mset (shuffle rand array) = mset array"
  by (simp add: shuffle_def mset_shuffleSelf)

lemma set_shuffle: "set (shuffle rand array) = set array"
  using mset_shuffle [of rand array] by (metis set_mset_mset)

lemma distinct_shuffle: "distinct (shuffle rand array) = distinct array"
  using mset_shuffle [of rand array] by (metis mset_eq_imp_distinct_iff)

section \<open>The three branches of \<open>discoverResources\<close>\<close>

lemma discoverResources_non_html:
  assumes "contentType (stateData queueItem) = Some ct" and "\<not> prefix ''text/html'' ct"
  shows "discoverResources env config crawler rand buf queueItem = Inr ([], [])"
  using assms by (simp add: discoverResources_def indexOf_zero_iff)

lemma discoverResources_off_host:
  assumes "is_html queueItem" and "\<not> same_host crawler queueItem"
  shows "discoverResources env config crawler rand buf queueItem =
           Inr ([FindSupportedHashes (url queueItem) (cheerio_load env (replace_URLs buf))], [])"
  using assms
  by (auto simp add: discoverResources_def indexOf_zero_iff is_html_def same_host_def Let_def
      split: option.splits)

lemma discoverResources_same_host:
  assumes "is_html queueItem" and "same_host crawler queueItem"
  shows "discoverResources env config crawler rand buf queueItem =
           Inr ([FindSupportedHashes (url queueItem) (cheerio_load env (replace_URLs buf))]
                  @ (if truthy (titlePattern config)
                     then checkTitle env config (url queueItem) (cheerio_load env (replace_URLs buf))
                     else [])
                  @ map (\<lambda>n. RegisterExpectedHash (attr n ''href'') queueItem)
                      (select_a_href (remove_pre_code_svg (cheerio_load env (replace_URLs buf))))
                  @ [OldDiscoverResources
                       (html env (remove_pre_code_svg (cheerio_load env (replace_URLs buf))))
                       queueItem],
                shuffle rand
                  (uniq (map (\<lambda>considerURL.
                                if mailtoMatcher_test considerURL then None else Some considerURL)
                           (oldDiscoverResources env
                              (html env (remove_pre_code_svg (cheerio_load env (replace_URLs buf))))
                              queueItem))))"
  using assms
  by (auto simp add: discoverResources_def indexOf_zero_iff is_html_def same_host_def Let_def
      split: option.splits)

section \<open>Facts about traces and about the example site\<close>

lemma filter_title_check_registered [simp]:
  "filter is_title_check (map (\<lambda>n. RegisterExpectedHash (f n) q) ns) = []"
  by (induction ns) (simp_all add: is_title_check_def)

lemma filter_title_error_registered [simp]:
  "filter is_title_error (map (\<lambda>n. RegisterExpectedHash (f n) q) ns) = []"
  by (induction ns) (simp_all add: is_title_error_def)

lemma filter_expected_hash_registered [simp]:
  "filter is_expected_hash (map (\<lambda>n. RegisterExpectedHash (f n) q) ns) =
     map (\<lambda>n. RegisterExpectedHash (f n) q) ns"
  by (induction ns) (simp_all add: is_expected_hash_def)

lemma filter_checkTitle:
  "filter is_title_check (checkTitle env config u doc) = [GetTitleValidationFailure doc]"
  "filter is_expected_hash (checkTitle env config u doc) = []"
  "filter is_title_error (checkTitle env config u doc) =
     (case getTitleValidationFailure env (titlePattern config) doc of
        None \<Rightarrow> []
      | Some failure \<Rightarrow>
          [HandleTitleError u
             (''pattern: '' @ failure_titlePattern failure @
              '' failed on title: '' @ failure_titleText failure)])"
  by (simp_all add: checkTitle_def is_title_check_def is_title_error_def is_expected_hash_def
      split: option.splits)

lemma site_page_html: "is_html site_page" "is_html external_page" "\<not> is_html image_item"
  by (simp_all add: is_html_def site_page_def external_page_def image_item_def)

lemma site_page_host: "same_host site_crawler site_page" "\<not> same_host site_crawler external_page"
  by (simp_all add: same_host_def site_crawler_def site_page_def external_page_def)

lemma site_pruned:
  "remove_pre_code_svg site_doc =
     [Element ''html'' []
        [Element ''head'' [] [Element ''title'' [] [Text ''Welcome'']],
         Element ''body'' []
           [Element ''h2'' [(''id'', ''team'')] [Text ''Team''],
            Element ''a'' [(''href'', ''https://external.example/page#frag'')] [Text ''out''],
            Element ''a'' [(''href'', ''mailto:a@b.com'')] [Text ''mail'']]]]"
  by (simp add: remove_pre_code_svg_def site_doc_def is_pre_code_svg_def)

lemma site_anchors:
  "select_a_href (remove_pre_code_svg site_doc) =
     [Element ''a'' [(''href'', ''https://external.example/page#frag'')] [Text ''out''],
      Element ''a'' [(''href'', ''mailto:a@b.com'')] [Text ''mail'']]"
  by (simp add: site_pruned select_a_href_def all_elements_def is_a_href_def)

lemma discoverResources_Inr_html:
  assumes "discoverResources env config crawler rand buf queueItem = Inr (t, resources)"
    and "\<not> is_html queueItem"
  shows "t = []" and "resources = []"
  using assms
  by (auto simp add: discoverResources_def is_html_def indexOf_zero_iff split: option.splits)

lemma shuffle_examples:
  "shuffle [] [None, Some ''https://x/y''] = [None, Some ''https://x/y'']"
  "shuffle [3] [None, Some ''https://x/y''] = [Some ''https://x/y'', None]"
  by code_simp+

lemma site_resources:
  "snd (projr (discoverResources site_env site_config site_crawler [] ''<html>'' site_page))
     = [None, Some ''https://x/y'']"
  "snd (projr (discoverResources site_env site_config site_crawler [3] ''<html>'' site_page))
     = [Some ''https://x/y'', None]"
  by (simp_all add: discoverResources_same_host [OF site_page_html(1) site_page_host(1)]
      site_env_def uniq_def shuffle_examples mailtoMatcher_test_def canonicalize_def)

subsection \<open>Pruning\<close>

lemma attr_remove_node [simp]: "attr (remove_node n) a = attr n a"
  by (cases n) (simp_all add: attr_def)

lemma is_pre_code_svg_remove_node [simp]: "is_pre_code_svg (remove_node n) = is_pre_code_svg n"
  by (cases n) (simp_all add: is_pre_code_svg_def)

lemma is_a_href_remove_node [simp]: "is_a_href (remove_node n) = is_a_href n"
  by (cases n) (simp_all add: is_a_href_def)

lemma outside_of_removed: "is_pre_code_svg n \<Longrightarrow> outside_pre_code_svg n = []"
  by (cases n) (simp_all add: is_pre_code_svg_def)

lemma concat_map_filter_cong:
  assumes "\<And>x. x \<in> set xs \<Longrightarrow> P x \<Longrightarrow> f x = g x"
    and "\<And>x. x \<in> set xs \<Longrightarrow> \<not> P x \<Longrightarrow> g x = []"
  shows "concat (map f (filter P xs)) = concat (map g xs)"
  using assms by (induction xs) auto

lemma elements_remove_node:
  "\<not> is_pre_code_svg n \<Longrightarrow> elements (remove_node n) = map remove_node (outside_pre_code_svg n)"
proof (induction n)
  case (Element t as cs)
  have "concat (map (\<lambda>c. elements (remove_node c)) (filter (\<lambda>c. \<not> is_pre_code_svg c) cs))
        = concat (map (\<lambda>c. map remove_node (outside_pre_code_svg c)) cs)"
    by (rule concat_map_filter_cong) (simp_all add: Element.IH outside_of_removed)
  with Element.prems show ?case
    by (simp add: comp_def map_concat)
next
  case (Text s)
  then show ?case by simp
qed

lemma all_elements_pruned:
  "all_elements (remove_pre_code_svg doc) =
     map remove_node (concat (map outside_pre_code_svg doc))"
proof -
  have "concat (map (\<lambda>c. elements (remove_node c)) (filter (\<lambda>c. \<not> is_pre_code_svg c) doc))
        = concat (map (\<lambda>c. map remove_node (outside_pre_code_svg c)) doc)"
    by (rule concat_map_filter_cong) (simp_all add: elements_remove_node outside_of_removed)
  then show ?thesis
    by (simp add: all_elements_def remove_pre_code_svg_def comp_def map_concat)
qed

lemma outside_not_removed:
  "n \<in> set (outside_pre_code_svg m) \<Longrightarrow> \<not> is_pre_code_svg n"
  by (induction m) (auto split: if_splits)

lemma outside_subset_elements:
  "n \<in> set (outside_pre_code_svg m) \<Longrightarrow> n \<in> set (elements m)"
  by (induction m) (auto split: if_splits)

lemma pruned_has_no_pre_code_svg:
  "n \<in> set (all_elements (remove_pre_code_svg doc)) \<Longrightarrow> \<not> is_pre_code_svg n"
  by (auto simp add: all_elements_pruned dest: outside_not_removed)

lemma hrefs_of_pruned:
  "map (\<lambda>n. RegisterExpectedHash (attr n ''href'') q) (select_a_href (remove_pre_code_svg doc))
   = map (\<lambda>n. RegisterExpectedHash (attr n ''href'') q)
       (filter is_a_href (concat (map outside_pre_code_svg doc)))"
  by (simp add: select_a_href_def all_elements_pruned filter_map comp_def)

subsection \<open>The ledger and the calls of one discovery\<close>

lemma fold_recordDeclared_registered [simp]:
  "fold recordDeclared (map (\<lambda>n. RegisterExpectedHash (f n) q) ns) ledger = ledger"
  by (induction ns) (simp_all add: recordDeclared_def)

lemma fold_recordDeclared_checkTitle [simp]:
  "fold recordDeclared (checkTitle env config u doc) ledger = ledger"
  by (simp add: checkTitle_def recordDeclared_def split: option.splits)

lemma filter_declaration_registered [simp]:
  "filter is_declaration (map (\<lambda>n. RegisterExpectedHash (f n) q) ns) = []"
  by (induction ns) (simp_all add: is_declaration_def)

lemma filter_link_discovery_registered [simp]:
  "filter is_link_discovery (map (\<lambda>n. RegisterExpectedHash (f n) q) ns) = []"
  by (induction ns) (simp_all add: is_link_discovery_def)

lemma filter_checkTitle_other [simp]:
  "filter is_declaration (checkTitle env config u doc) = []"
  "filter is_link_discovery (checkTitle env config u doc) = []"
  by (simp_all add: checkTitle_def is_declaration_def is_link_discovery_def split: option.splits)

lemma identifiers_in_supportedHashes:
  assumes "n \<in> set (all_elements doc)" and "attr n ''id'' = Some i \<or> attr n ''name'' = Some i"
  shows "i \<in> set (supportedHashes doc)"
proof -
  from assms(2) have "i \<in> set (identifiers n)"
    by (auto simp add: identifiers_def split: option.splits)
  with assms(1) show ?thesis
    by (auto simp add: supportedHashes_def)
qed

lemma site_outside_anchors:
  "filter is_a_href (concat (map outside_pre_code_svg site_doc)) =
     [Element ''a'' [(''href'', ''https://external.example/page#frag'')] [Text ''out''],
      Element ''a'' [(''href'', ''mailto:a@b.com'')] [Text ''mail'']]"
  by (simp add: site_doc_def is_pre_code_svg_def is_a_href_def)

lemma site_supportedHashes: "set (supportedHashes site_doc) = {''team'', ''sample''}"
  by (simp add: supportedHashes_def all_elements_def site_doc_def identifiers_def attr_def)

lemma site_discovery:
  "discoverResources site_env site_config site_crawler rand ''<html>'' site_page =
     Inr (fst (projr (discoverResources site_env site_config site_crawler rand ''<html>''
                        site_page)),
          snd (projr (discoverResources site_env site_config site_crawler rand ''<html>''
                        site_page)))"
  by (simp add: discoverResources_same_host [OF site_page_html(1) site_page_host(1)])

subsection \<open>The fetch condition and the initialisation\<close>

lemma fst_fetchCondition:
  "fst (fetchCondition env config hasExclude hasInclude parsedURL) \<longleftrightarrow>
     (\<not> hasExclude
        \<or> \<not> truthy (getFirstMatchingPattern env (excludePatterns config) (url parsedURL)
                       (rootUrl config)))
     \<and> (\<not> hasInclude
          \<or> truthy (getFirstMatchingPattern env (includePatterns config) (url parsedURL)
                      (rootUrl config)))"
  by (simp add: fetchCondition_def Let_def)

lemma evaluate_single: "fst (evaluateFetchConditions [c] parsedURL) = fst (c parsedURL)"
  by (cases "c parsedURL") (auto split: bool.splits)

lemma initCrawler_invalid:
  "\<not> has_protocol_hostname_path (URL_parse env myUrl)
   \<Longrightarrow> initCrawler env myUrl config w = (Inl InvalidURL, w)"
  by (auto simp add: initCrawler_def has_protocol_hostname_path_def split: option.splits)

lemma trace_emit [simp]: "trace (emit t w) = trace w @ t"
  by (simp add: emit_def)

lemma trace_initTls [simp]: "trace (initTls config w) = trace w"
  by (simp add: initTls_def Let_def)

lemma trace_initAdditionalPaths:
  "trace (initAdditionalPaths config crawler w) =
     trace w @ (case additionalPaths config of None \<Rightarrow> [] | Some paths \<Rightarrow> map QueueURL paths)"
  by (simp add: initAdditionalPaths_def split: option.splits)

lemma trace_initSpool:
  "\<exists>t. trace (initSpool config crawler w) = trace w @ t"
  by (simp add: initSpool_def setInterval_def split: option.splits)

lemma initCrawler_not_invalid:
  assumes "has_protocol_hostname_path (URL_parse env myUrl)"
  shows "fst (initCrawler env myUrl config w) \<noteq> Inl InvalidURL"
proof -
  from assms obtain seed where seed: "URL_parse env myUrl = Some seed"
    and ok: "truthy (protocol seed)" "truthy (hostname seed)" "truthy (path seed)"
    by (auto simp add: has_protocol_hostname_path_def split: option.splits)
  show ?thesis
  proof (cases "engine_host env myUrl")
    case None
    with seed ok show ?thesis
      by (simp add: initCrawler_def newSimplecrawler_def Let_def)
  next
    case (Some h)
    with seed ok show ?thesis
      by (simp add: initCrawler_def newSimplecrawler_def Let_def)
  qed
qed

lemma crawl_not_invalid:
  assumes "has_protocol_hostname_path (URL_parse env myUrl)"
  shows "fst (crawl env myUrl config w) \<noteq> Inl InvalidURL"
proof (cases "initCrawler env myUrl config w")
  case (Pair result w')
  with initCrawler_not_invalid [OF assms, of config w] have "result \<noteq> Inl InvalidURL"
    by simp
  with Pair show ?thesis
    by (cases result) (auto simp add: crawl_def Let_def split: prod.splits)
qed

lemma settings_initIncludeExcludePatterns [simp]:
  "settings (initIncludeExcludePatterns env config crawler) = settings crawler"
  by (simp add: initIncludeExcludePatterns_def Let_def)

text \<open>Past the validation of the seed, \<open>crawl\<close> can still throw.\<close>

lemma crawl_constructor_throws:
  assumes "has_protocol_hostname_path (URL_parse env myUrl)" and "engine_host env myUrl = None"
  shows "fst (initCrawler env myUrl config w) = Inl EngineError"
    and "fst (crawl env myUrl config w) = Inl EngineError"
proof -
  from assms(1) obtain seed where "URL_parse env myUrl = Some seed"
    and "truthy (protocol seed)" "truthy (hostname seed)" "truthy (path seed)"
    by (auto simp add: has_protocol_hostname_path_def split: option.splits)
  with assms(2) show "fst (initCrawler env myUrl config w) = Inl EngineError"
    by (simp add: initCrawler_def newSimplecrawler_def Let_def)
  then show "fst (crawl env myUrl config w) = Inl EngineError"
    by (cases "initCrawler env myUrl config w") (simp add: crawl_def)
qed

lemma crawl_method_replaced:
  assumes "initCrawler env myUrl config w = (Inr (crawler, config'), w')"
    and "overwritten crawler ''on'' \<or> overwritten crawler ''start''"
  shows "crawl env myUrl config w = (Inl TypeError, w')"
  using assms by (auto simp add: crawl_def Let_def overwritten_def)

lemma site_crawl_start_replaced:
  "fst (crawl site_env ''https://site.test/''
          (site_config\<lparr>simplecrawlerConfig := Some [(''start'', JBool False)]\<rparr>) fresh_world)
     = Inl TypeError"
  by (simp add: crawl_def initCrawler_def site_env_def site_config_def truthy_def
      setConfigRootUrl_def template_def initTls_def newSimplecrawler_def
      initAdditionalPaths_def initSpool_def setInterval_def injectCrawlerConfig_def
      setProperty_def truthy_value_def emit_def Let_def overwritten_def hasPatterns_def)

lemma site_crawl:
  "crawl site_env ''https://site.test/'' site_config w =
     (Inr \<lparr>run_config = site_config,
           run_crawler = initIncludeExcludePatterns site_env site_config site_crawler\<rparr>,
      w\<lparr>spooledReportTimer := Some (nextTimer w),
        activeIntervals := insert (nextTimer w) (activeIntervals w),
        nextTimer := Suc (nextTimer w),
        trace := trace w @ [NewSimplecrawler ''https://site.test/'',
                            SetInterval (nextTimer w) 1000, Start]\<rparr>)"
  by (simp add: crawl_def initCrawler_def site_env_def site_config_def truthy_def
      setConfigRootUrl_def template_def initTls_def newSimplecrawler_def
      initAdditionalPaths_def initSpool_def setInterval_def injectCrawlerConfig_def
      emit_def site_crawler_def Let_def overwritten_def hasPatterns_def)

subsection \<open>Counting the calls of \<open>findErrors\<close>\<close>

lemma count_FindErrors_registered [simp]:
  "count_list (map (\<lambda>n. RegisterExpectedHash (f n) q) ns) FindErrors = 0"
  by (induction ns) simp_all

lemma count_FindErrors_links [simp]:
  "count_list (map (RegisterLink u) resources) FindErrors = 0"
  by (induction resources) simp_all

lemma count_FindErrors_checkTitle [simp]:
  "count_list (checkTitle env config u doc) FindErrors = 0"
  by (simp add: checkTitle_def split: option.splits)

lemma count_list_append [simp]:
  "count_list (xs @ ys) x = count_list xs x + count_list ys x"
  by (induction xs) simp_all

lemma count_FindErrors_discoverResources:
  assumes "discoverResources env config crawler rand buf queueItem = Inr (t, resources)"
  shows "count_list t FindErrors = 0"
proof (cases "is_html queueItem")
  case False
  with assms have "t = []" by (rule discoverResources_Inr_html)
  then show ?thesis by simp
next
  case True
  with assms show ?thesis
    by (cases "same_host crawler queueItem")
      (auto simp add: discoverResources_same_host discoverResources_off_host)
qed

lemma count_FindErrors_fetchCondition:
  "count_list (snd (fetchCondition env config hasExclude hasInclude parsedURL)) FindErrors = 0"
  by (simp add: fetchCondition_def Let_def)

text \<open>The fetch conditions of a crawl are those that \<open>crawl\<close> installed.\<close>

lemma crawl_fetchConditions:
  assumes "crawl env myUrl config w = (Inr r, w')"
  shows "fetchConditions (run_crawler r) = []
         \<or> (\<exists>hasExclude hasInclude.
               fetchConditions (run_crawler r) =
                 [fetchCondition env (run_config r) hasExclude hasInclude])"
proof -
  have inject: "fetchConditions (fold setProperty kv c) = fetchConditions c" for kv c
    by (induction kv arbitrary: c) (simp_all add: setProperty_def)
  have "fetchConditions (injectCrawlerConfig cfg c) = fetchConditions c" for cfg c
    by (simp add: injectCrawlerConfig_def inject split: option.splits)
  with assms show ?thesis
    by (auto simp add: crawl_def initCrawler_def newSimplecrawler_def Let_def
        initIncludeExcludePatterns_def
        split: option.splits if_splits prod.splits sum.splits) blast+
qed

lemma count_FindErrors_conditions:
  assumes "crawl env myUrl config w = (Inr r, w')"
  shows "count_list (snd (evaluateFetchConditions (fetchConditions (run_crawler r)) parsedURL))
           FindErrors = 0"
proof -
  from crawl_fetchConditions [OF assms] show ?thesis
  proof
    assume "fetchConditions (run_crawler r) = []"
    then show ?thesis by simp
  next
    assume "\<exists>hasExclude hasInclude.
               fetchConditions (run_crawler r) =
                 [fetchCondition env (run_config r) hasExclude hasInclude]"
    then obtain e i where
      "fetchConditions (run_crawler r) = [fetchCondition env (run_config r) e i]"
      by blast
    then show ?thesis
      using count_FindErrors_fetchCondition [of env "run_config r" e i parsedURL]
      by (cases "fetchCondition env (run_config r) e i parsedURL")
        (auto split: bool.splits)
  qed
qed

lemma trace_on_complete:
  "trace (on_complete env w) =
     trace w @ (case spooledReportTimer w of None \<Rightarrow> [] | Some timer \<Rightarrow> [ClearInterval timer])
       @ [FindErrors, Report]"
  by (simp add: on_complete_def clearInterval_def emit_def Let_def split: option.splits)

lemma count_FindErrors_handle:
  assumes "crawl env myUrl config w0 = (Inr r, w1)"
    and "handle env r ev w = Inr w'"
  shows "count_list (trace w') FindErrors =
           count_list (trace w) FindErrors + (if ev = Complete then 1 else 0)"
proof (cases ev)
  case Complete
  with assms(2) have "w' = on_complete env w"
    by (simp add: handle_def)
  with Complete show ?thesis
    by (simp add: trace_on_complete split: option.splits)
next
  case (AskFetchConditions parsedURL)
  with assms(2) count_FindErrors_conditions [OF assms(1), of parsedURL] show ?thesis
    by (auto simp add: handle_def emit_def)
next
  case (Discover rand buf queueItem)
  with assms(2) show ?thesis
    by (auto simp add: handle_def emit_def count_FindErrors_discoverResources
        split: sum.splits)
qed (use assms(2) in \<open>auto simp add: handle_def emit_def\<close>)

lemma count_FindErrors_handle_all:
  assumes "crawl env myUrl config w0 = (Inr r, w1)"
  shows "handle_all env (map (Pair r) events) w = Inr w'
         \<Longrightarrow> count_list (trace w') FindErrors =
               count_list (trace w) FindErrors + count_list events Complete"
proof (induction events arbitrary: w)
  case Nil
  then show ?case by simp
next
  case (Cons ev events)
  from Cons.prems obtain w'' where step: "handle env r ev w = Inr w''"
    and rest: "handle_all env (map (Pair r) events) w'' = Inr w'"
    by (auto split: sum.splits)
  from count_FindErrors_handle [OF assms step] Cons.IH [OF rest] show ?case
    by simp
qed

subsection \<open>Timers\<close>

lemma world_emit [simp]:
  "spooledReportTimer (emit t w) = spooledReportTimer w"
  "activeIntervals (emit t w) = activeIntervals w"
  "nextTimer (emit t w) = nextTimer w"
  by (simp_all add: emit_def)

lemma world_initTls [simp]:
  "spooledReportTimer (initTls config w) = spooledReportTimer w"
  "activeIntervals (initTls config w) = activeIntervals w"
  "nextTimer (initTls config w) = nextTimer w"
  by (simp_all add: initTls_def Let_def)

lemma world_initAdditionalPaths [simp]:
  "spooledReportTimer (initAdditionalPaths config crawler w) = spooledReportTimer w"
  "activeIntervals (initAdditionalPaths config crawler w) = activeIntervals w"
  "nextTimer (initAdditionalPaths config crawler w) = nextTimer w"
  by (simp_all add: initAdditionalPaths_def split: option.splits)

lemma config_setConfigRootUrl [simp]:
  "reportSpoolInterval (setConfigRootUrl config seed) = reportSpoolInterval config"
  "additionalPaths (setConfigRootUrl config seed) = additionalPaths config"
  by (simp_all add: setConfigRootUrl_def Let_def)

lemma count_FindErrors_queued [simp]: "count_list (map QueueURL paths) FindErrors = 0"
  by (induction paths) simp_all

lemma initSpool_on:
  assumes "reportSpoolInterval config = Some ms" and "0 < ms"
  shows "spooledReportTimer (initSpool config crawler w) = Some (nextTimer w)"
    and "activeIntervals (initSpool config crawler w) = insert (nextTimer w) (activeIntervals w)"
    and "nextTimer (initSpool config crawler w) = Suc (nextTimer w)"
  using assms by (simp_all add: initSpool_def setInterval_def)

lemma count_FindErrors_initSpool [simp]:
  "count_list (trace (initSpool config crawler w)) FindErrors = count_list (trace w) FindErrors"
  by (simp add: initSpool_def setInterval_def split: option.splits)

lemma crawl_Inr:
  assumes "crawl env myUrl config w = (Inr r, w')"
  obtains seed c where "URL_parse env myUrl = Some seed"
    and "w' = emit [Start]
                (initSpool (setConfigRootUrl config seed) c
                   (initAdditionalPaths (setConfigRootUrl config seed) c
                      (emit [NewSimplecrawler myUrl] (initTls (setConfigRootUrl config seed) w))))"
  using assms
  by (auto simp add: crawl_def initCrawler_def newSimplecrawler_def Let_def
      split: option.splits if_splits)

lemma crawl_timers:
  assumes "crawl env myUrl config w = (Inr r, w')"
    and "reportSpoolInterval config = Some ms" and "0 < ms"
  shows "spooledReportTimer w' = Some (nextTimer w)"
    and "activeIntervals w' = insert (nextTimer w) (activeIntervals w)"
    and "nextTimer w' = Suc (nextTimer w)"
proof -
  from assms(1) obtain seed c where
    w': "w' = emit [Start]
                (initSpool (setConfigRootUrl config seed) c
                   (initAdditionalPaths (setConfigRootUrl config seed) c
                      (emit [NewSimplecrawler myUrl] (initTls (setConfigRootUrl config seed) w))))"
    by (rule crawl_Inr)
  have on: "reportSpoolInterval (setConfigRootUrl config seed) = Some ms"
    using assms(2) by simp
  show "spooledReportTimer w' = Some (nextTimer w)"
    and "activeIntervals w' = insert (nextTimer w) (activeIntervals w)"
    and "nextTimer w' = Suc (nextTimer w)"
    unfolding w' by (simp_all add: initSpool_on [OF on assms(3)])
qed

lemma crawl_count_FindErrors:
  assumes "crawl env myUrl config w = (Inr r, w')"
  shows "count_list (trace w') FindErrors = count_list (trace w) FindErrors"
proof -
  from assms obtain seed c where
    w': "w' = emit [Start]
                (initSpool (setConfigRootUrl config seed) c
                   (initAdditionalPaths (setConfigRootUrl config seed) c
                      (emit [NewSimplecrawler myUrl] (initTls (setConfigRootUrl config seed) w))))"
    by (rule crawl_Inr)
  show ?thesis
    unfolding w' by (simp add: trace_initAdditionalPaths split: option.splits)
qed

lemma world_on_complete:
  "spooledReportTimer (on_complete env w) = spooledReportTimer w"
  "nextTimer (on_complete env w) = nextTimer w"
  "activeIntervals (on_complete env w) = activeIntervals w - set_option (spooledReportTimer w)"
  by (simp_all add: on_complete_def clearInterval_def emit_def Let_def split: option.splits)

lemma handle_timers:
  assumes "handle env r ev w = Inr w'"
  shows "spooledReportTimer w' = spooledReportTimer w"
    and "nextTimer w' = nextTimer w"
    and "activeIntervals w' =
           (if ev = Complete then activeIntervals w - set_option (spooledReportTimer w)
            else activeIntervals w)"
  using assms
  by (cases ev; auto simp add: handle_def world_on_complete split: sum.splits)+

lemma handle_all_timers:
  "handle_all env schedule w = Inr w'
   \<Longrightarrow> spooledReportTimer w' = spooledReportTimer w
       \<and> nextTimer w' = nextTimer w
       \<and> activeIntervals w' =
           (if Complete \<in> snd ` set schedule
            then activeIntervals w - set_option (spooledReportTimer w)
            else activeIntervals w)"
proof (induction schedule arbitrary: w)
  case Nil
  then show ?case by simp
next
  case (Cons step schedule)
  obtain r ev where step: "step = (r, ev)"
    by (cases step)
  from Cons.prems step obtain w'' where one: "handle env r ev w = Inr w''"
    and rest: "handle_all env schedule w'' = Inr w'"
    by (auto split: sum.splits)
  from handle_timers [OF one] Cons.IH [OF rest] step show ?case
    by auto
qed

lemma site_crawl_run:
  "crawl site_env ''https://site.test/'' site_config w =
     (Inr site_run,
      w\<lparr>spooledReportTimer := Some (nextTimer w),
        activeIntervals := insert (nextTimer w) (activeIntervals w),
        nextTimer := Suc (nextTimer w),
        trace := trace w @ [NewSimplecrawler ''https://site.test/'',
                            SetInterval (nextTimer w) 1000, Start]\<rparr>)"
  by (simp add: site_crawl site_run_def)

lemma site_events:
  "handle_all site_env (map (Pair site_run) [FetchComplete site_page, Fetch404 image_item])
     (snd (crawl site_env ''https://site.test/'' site_config fresh_world))
   = Inr \<lparr>spooledReportTimer = Some 1, activeIntervals = {1}, nextTimer = 2, exitCode = None,
          tls_DEFAULT_CIPHERS = None, NODE_TLS_REJECT_UNAUTHORIZED = None,
          trace = [NewSimplecrawler ''https://site.test/'', SetInterval 1 1000, Start,
                   LogSuccess site_page, HandleFetchServerError 404 image_item]\<rparr>"
  by (simp add: site_crawl_run fresh_world_def handle_def emit_def)

section \<open>Properties of the resource discoverer\<close>

text \<open>
  C6. A fetched document whose declared content type does not start with \<open>text/html\<close>
  yields the empty resource list, and nothing else happens: no call is made to the hash
  processor, the title validator, the error handler or the engine's link discovery, so
  the process is as it was before the call. (A queue item that declares no content type
  at all makes the call throw; it is the value \<open>Inl TypeError\<close> of the model.)
\<close>

theorem C6_non_html_bypassed:
  assumes "contentType (stateData queueItem) = Some ct" and "\<not> prefix ''text/html'' ct"
  shows "discoverResources env config crawler rand buf queueItem = Inr ([], [])
         \<and> handle env \<lparr>run_config = config, run_crawler = crawler\<rparr>
              (Discover rand buf queueItem) w = Inr w"
  using discoverResources_non_html [OF assms] by (simp add: handle_def emit_def)

theorem C6_non_html_bypassed_witness:
  "discoverResources site_env site_config site_crawler [2, 7] ''<a href=x>'' image_item
     = Inr ([], [])
   \<and> handle site_env \<lparr>run_config = site_config, run_crawler = site_crawler\<rparr>
        (Discover [2, 7] ''<a href=x>'' image_item) fresh_world = Inr fresh_world"
  using C6_non_html_bypassed [where queueItem = image_item and ct = "''image/png''"]
  by (simp add: image_item_def)

text \<open>
  C1. For an HTML document whose host is not the host of the crawl, \<open>discoverResources\<close>
  returns the empty list, and the one call it makes is \<open>findSupportedHashes\<close> with the
  page's URL and the whole parsed document. Fragment references to other domains are
  registered where they are found: on every page of the crawl's own host, each \<open>a[href]\<close>
  outside \<open>pre\<close>, \<open>code\<close> and \<open>svg\<close> is passed to \<open>registerExpectedHash\<close>, whatever host its
  target has.
\<close>

theorem C1_off_host_page:
  assumes "is_html queueItem" and "\<not> same_host crawler queueItem"
  shows "discoverResources env config crawler rand buf queueItem =
           Inr ([FindSupportedHashes (url queueItem) (cheerio_load env (replace_URLs buf))], [])
         \<and> (\<forall>page prand pbuf t resources.
               is_html page \<and> same_host crawler page
               \<and> discoverResources env config crawler prand pbuf page = Inr (t, resources)
               \<longrightarrow> (\<forall>n \<in> set (select_a_href
                                   (remove_pre_code_svg (cheerio_load env (replace_URLs pbuf)))).
                      RegisterExpectedHash (attr n ''href'') page \<in> set t))"
proof (intro conjI allI impI ballI)
  show "discoverResources env config crawler rand buf queueItem =
          Inr ([FindSupportedHashes (url queueItem) (cheerio_load env (replace_URLs buf))], [])"
    by (rule discoverResources_off_host [OF assms])
next
  fix page prand pbuf t resources n
  assume page: "is_html page \<and> same_host crawler page
                \<and> discoverResources env config crawler prand pbuf page = Inr (t, resources)"
    and n: "n \<in> set (select_a_href (remove_pre_code_svg (cheerio_load env (replace_URLs pbuf))))"
  from page have "discoverResources env config crawler prand pbuf page = Inr (t, resources)"
    and "is_html page" and "same_host crawler page"
    by simp_all
  then have "set (map (\<lambda>n. RegisterExpectedHash (attr n ''href'') page)
                (select_a_href (remove_pre_code_svg (cheerio_load env (replace_URLs pbuf)))))
             \<subseteq> set t"
    by (auto simp add: discoverResources_same_host)
  with n show "RegisterExpectedHash (attr n ''href'') page \<in> set t"
    by auto
qed

theorem C1_off_host_page_witness:
  "discoverResources site_env site_config site_crawler [] ''<html>'' external_page =
     Inr ([FindSupportedHashes ''https://external.example/page'' site_doc], [])
   \<and> RegisterExpectedHash (Some ''https://external.example/page#frag'') site_page
       \<in> set (fst (projr (discoverResources site_env site_config site_crawler [] ''<html>''
                            site_page)))"
proof -
  note c1 = C1_off_host_page [OF site_page_html(2) site_page_host(2),
      where env = site_env and config = site_config and rand = "[]" and buf = "''<html>''"]
  have run: "discoverResources site_env site_config site_crawler [] ''<html>'' site_page =
      Inr (fst (projr (discoverResources site_env site_config site_crawler [] ''<html>'' site_page)),
           snd (projr (discoverResources site_env site_config site_crawler [] ''<html>'' site_page)))"
    by (simp add: discoverResources_same_host [OF site_page_html(1) site_page_host(1)])
  have anchor: "Element ''a'' [(''href'', ''https://external.example/page#frag'')] [Text ''out'']
      \<in> set (select_a_href (remove_pre_code_svg (cheerio_load site_env (replace_URLs ''<html>''))))"
    by (simp add: site_env_def site_anchors)
  from c1 have "discoverResources site_env site_config site_crawler [] ''<html>'' external_page =
     Inr ([FindSupportedHashes ''https://external.example/page'' site_doc], [])"
    by (simp add: external_page_def site_env_def)
  moreover from c1 run anchor site_page_html(1) site_page_host(1)
  have "RegisterExpectedHash
          (attr (Element ''a'' [(''href'', ''https://external.example/page#frag'')] [Text ''out''])
             ''href'') site_page
       \<in> set (fst (projr (discoverResources site_env site_config site_crawler [] ''<html>''
                            site_page)))"
    by blast
  ultimately show ?thesis by (simp add: attr_def)
qed

text \<open>
  C8. On an HTML page of the crawl's own host, with a title pattern configured (present
  and not the empty string), the title validator is asked once; when it reports a
  mismatch, one title error is handed to the error handler, and its message carries the
  pattern and the title text; when it reports none, no title error is recorded. Without
  a configured title pattern, or on a page of another host, the validator is not asked and
  no title error is recorded.
\<close>

theorem C8_title_mismatch_recorded:
  assumes "discoverResources env config crawler rand buf queueItem = Inr (t, resources)"
  shows "(is_html queueItem \<and> same_host crawler queueItem \<and> truthy (titlePattern config) \<longrightarrow>
            filter is_title_check t =
              [GetTitleValidationFailure (cheerio_load env (replace_URLs buf))]
            \<and> (\<forall>failure.
                  getTitleValidationFailure env (titlePattern config)
                    (cheerio_load env (replace_URLs buf)) = Some failure
                  \<longrightarrow> filter is_title_error t =
                        [HandleTitleError (url queueItem)
                           (''pattern: '' @ failure_titlePattern failure @
                            '' failed on title: '' @ failure_titleText failure)])
            \<and> (getTitleValidationFailure env (titlePattern config)
                  (cheerio_load env (replace_URLs buf)) = None
                \<longrightarrow> filter is_title_error t = []))
         \<and> (\<not> truthy (titlePattern config) \<or> \<not> same_host crawler queueItem \<longrightarrow>
              filter is_title_check t = [] \<and> filter is_title_error t = [])"
proof (cases "is_html queueItem")
  case False
  with assms have "t = []"
    by (rule discoverResources_Inr_html)
  with False show ?thesis by simp
next
  case html: True
  show ?thesis
  proof (cases "same_host crawler queueItem")
    case False
    with html assms have "t = [FindSupportedHashes (url queueItem) (cheerio_load env (replace_URLs buf))]"
      by (simp add: discoverResources_off_host)
    with False show ?thesis
      by (simp add: is_title_check_def is_title_error_def)
  next
    case True
    with html assms show ?thesis
      by (auto simp add: discoverResources_same_host filter_checkTitle
          is_title_check_def is_title_error_def)
  qed
qed

theorem C8_title_mismatch_recorded_witness:
  "filter is_title_error
     (fst (projr (discoverResources site_env site_config site_crawler [] ''<html>'' site_page)))
     = [HandleTitleError ''https://site.test/'' ''pattern: ^Home failed on title: Welcome'']
   \<and> filter is_title_check
       (fst (projr (discoverResources site_env site_config site_crawler [] ''<html>''
                      external_page))) = []
   \<and> filter is_title_error
       (fst (projr (discoverResources site_env (site_config\<lparr>titlePattern := None\<rparr>)
                      site_crawler [] ''<html>'' site_page))) = []"
proof -
  let ?on = "discoverResources site_env site_config site_crawler [] ''<html>'' site_page"
  let ?off = "discoverResources site_env site_config site_crawler [] ''<html>'' external_page"
  let ?no = "discoverResources site_env (site_config\<lparr>titlePattern := None\<rparr>) site_crawler []
               ''<html>'' site_page"
  have on: "?on = Inr (fst (projr ?on), snd (projr ?on))"
    by (simp add: discoverResources_same_host [OF site_page_html(1) site_page_host(1)])
  have off: "?off = Inr (fst (projr ?off), snd (projr ?off))"
    by (simp add: discoverResources_off_host [OF site_page_html(2) site_page_host(2)])
  have no: "?no = Inr (fst (projr ?no), snd (projr ?no))"
    by (simp add: discoverResources_same_host [OF site_page_html(1) site_page_host(1)])
  have fails: "getTitleValidationFailure site_env (titlePattern site_config)
                 (cheerio_load site_env (replace_URLs ''<html>''))
               = Some \<lparr>failure_titlePattern = ''^Home'', failure_titleText = ''Welcome''\<rparr>"
    by (simp add: site_env_def site_config_def)
  have configured: "truthy (titlePattern site_config)"
    and absent: "\<not> truthy (titlePattern (site_config\<lparr>titlePattern := None\<rparr>))"
    by (simp_all add: truthy_def site_config_def)
  from C8_title_mismatch_recorded [OF on] site_page_html(1) site_page_host(1) configured fails
  have "filter is_title_error (fst (projr ?on))
        = [HandleTitleError (url site_page)
             (''pattern: '' @ ''^Home'' @ '' failed on title: '' @ ''Welcome'')]"
    by simp
  moreover from C8_title_mismatch_recorded [OF off] site_page_host(2)
  have "filter is_title_check (fst (projr ?off)) = []"
    by simp
  moreover from C8_title_mismatch_recorded [OF no] absent
  have "filter is_title_error (fst (projr ?no)) = []"
    by simp
  ultimately show ?thesis
    by (simp add: site_page_def)
qed

text \<open>
  C9. On an HTML page of the crawl's own host, \<open>findSupportedHashes\<close> is the first call and
  receives the whole parsed document, so that every \<open>id\<close> and \<open>name\<close> of the document,
  also inside \<open>pre\<close>, \<open>code\<close> or \<open>svg\<close>, is in the declared-hash ledger of the page. The
  hrefs passed to \<open>registerExpectedHash\<close> are those of the \<open>a[href]\<close> elements outside every
  \<open>pre\<close>, \<open>code\<close> and \<open>svg\<close> subtree, in document order, and the engine's link discovery
  runs once, on the serialisation of the pruned document, which has no such element; the
  returned resources come from that run alone.
\<close>

theorem C9_ids_from_full_document_hrefs_from_pruned:
  assumes "is_html queueItem" and "same_host crawler queueItem"
    and "discoverResources env config crawler rand buf queueItem = Inr (t, resources)"
    and "doc = cheerio_load env (replace_URLs buf)"
  shows "take 1 t = [FindSupportedHashes (url queueItem) doc]
         \<and> filter is_declaration t = [FindSupportedHashes (url queueItem) doc]
         \<and> declaredHashes t (normalizeUrl (url queueItem)) = set (supportedHashes doc)
         \<and> (\<forall>n \<in> set (all_elements doc). \<forall>i.
               attr n ''id'' = Some i \<or> attr n ''name'' = Some i
               \<longrightarrow> i \<in> declaredHashes t (normalizeUrl (url queueItem)))
         \<and> filter is_expected_hash t =
             map (\<lambda>n. RegisterExpectedHash (attr n ''href'') queueItem)
               (filter is_a_href (concat (map outside_pre_code_svg doc)))
         \<and> filter is_link_discovery t =
             [OldDiscoverResources (html env (remove_pre_code_svg doc)) queueItem]
         \<and> (\<forall>n \<in> set (all_elements (remove_pre_code_svg doc)). \<not> is_pre_code_svg n)
         \<and> set resources =
             (\<lambda>considerURL. if mailtoMatcher_test considerURL then None else Some considerURL)
               ` set (oldDiscoverResources env (html env (remove_pre_code_svg doc)) queueItem)"
proof -
  let ?regs = "map (\<lambda>n. RegisterExpectedHash (attr n ''href'') queueItem)
                 (select_a_href (remove_pre_code_svg doc))"
  let ?title = "if truthy (titlePattern config) then checkTitle env config (url queueItem) doc
                else []"
  let ?old = "OldDiscoverResources (html env (remove_pre_code_svg doc)) queueItem"
  from assms have t: "t = [FindSupportedHashes (url queueItem) doc] @ ?title @ ?regs @ [?old]"
    and res: "resources = shuffle rand
                (uniq (map (\<lambda>considerURL.
                              if mailtoMatcher_test considerURL then None else Some considerURL)
                         (oldDiscoverResources env (html env (remove_pre_code_svg doc))
                            queueItem)))"
    by (auto simp add: discoverResources_same_host)
  have first: "take 1 t = [FindSupportedHashes (url queueItem) doc]"
    by (simp add: t)
  have decl: "filter is_declaration t = [FindSupportedHashes (url queueItem) doc]"
    by (simp add: t is_declaration_def)
  have ledger: "declaredHashes t (normalizeUrl (url queueItem)) = set (supportedHashes doc)"
    by (simp add: t declaredHashes_def recordDeclared_def findSupportedHashes_def)
  have ids: "\<forall>n \<in> set (all_elements doc). \<forall>i.
               attr n ''id'' = Some i \<or> attr n ''name'' = Some i
               \<longrightarrow> i \<in> declaredHashes t (normalizeUrl (url queueItem))"
    unfolding ledger by (blast intro: identifiers_in_supportedHashes)
  have regs: "filter is_expected_hash t =
             map (\<lambda>n. RegisterExpectedHash (attr n ''href'') queueItem)
               (filter is_a_href (concat (map outside_pre_code_svg doc)))"
    by (simp add: t filter_checkTitle is_expected_hash_def hrefs_of_pruned)
  have old: "filter is_link_discovery t = [?old]"
    by (simp add: t is_link_discovery_def)
  have pruned: "\<forall>n \<in> set (all_elements (remove_pre_code_svg doc)). \<not> is_pre_code_svg n"
    by (blast dest: pruned_has_no_pre_code_svg)
  have followed: "set resources =
             (\<lambda>considerURL. if mailtoMatcher_test considerURL then None else Some considerURL)
               ` set (oldDiscoverResources env (html env (remove_pre_code_svg doc)) queueItem)"
    by (simp add: res set_shuffle set_uniq)
  from first decl ledger ids regs old pruned followed show ?thesis
    by blast
qed

theorem C9_ids_from_full_document_hrefs_from_pruned_witness:
  "declaredHashes
     (fst (projr (discoverResources site_env site_config site_crawler [] ''<html>'' site_page)))
     (normalizeUrl (url site_page)) = {''team'', ''sample''}
   \<and> filter is_expected_hash
       (fst (projr (discoverResources site_env site_config site_crawler [] ''<html>'' site_page)))
     = [RegisterExpectedHash (Some ''https://external.example/page#frag'') site_page,
        RegisterExpectedHash (Some ''mailto:a@b.com'') site_page]"
proof -
  have doc: "site_doc = cheerio_load site_env (replace_URLs ''<html>'')"
    by (simp add: site_env_def)
  from C9_ids_from_full_document_hrefs_from_pruned
         [OF site_page_html(1) site_page_host(1) site_discovery doc]
  show ?thesis
    by (simp add: site_supportedHashes site_outside_anchors attr_def)
qed

text \<open>
  C4. For one buffer and one queue item, the list that \<open>discoverResources\<close> returns has no
  entry twice, and two invocations, whatever the draws of their shuffles, return lists
  with the same entries, each the same number of times: they differ in order at most.
\<close>

theorem C4_no_duplicates_set_stable:
  assumes "discoverResources env config crawler rand1 buf queueItem = Inr (t1, resources1)"
    and "discoverResources env config crawler rand2 buf queueItem = Inr (t2, resources2)"
  shows "distinct resources1 \<and> distinct resources2
         \<and> set resources1 = set resources2 \<and> mset resources1 = mset resources2"
proof (cases "is_html queueItem \<and> same_host crawler queueItem")
  case True
  with assms show ?thesis
    by (auto simp add: discoverResources_same_host distinct_shuffle distinct_uniq
        set_shuffle mset_shuffle)
next
  case False
  have "resources1 = [] \<and> resources2 = []"
  proof (cases "is_html queueItem")
    case False
    with assms show ?thesis
      by (auto dest: discoverResources_Inr_html(2))
  next
    case True
    with False assms show ?thesis
      by (auto simp add: discoverResources_off_host)
  qed
  then show ?thesis by simp
qed

theorem C4_no_duplicates_set_stable_witness:
  "distinct (snd (projr (discoverResources site_env site_config site_crawler [] ''<html>''
                           site_page)))
   \<and> set (snd (projr (discoverResources site_env site_config site_crawler [] ''<html>''
                        site_page)))
     = set (snd (projr (discoverResources site_env site_config site_crawler [3] ''<html>''
                          site_page)))
   \<and> snd (projr (discoverResources site_env site_config site_crawler [] ''<html>'' site_page))
     = [None, Some ''https://x/y'']
   \<and> snd (projr (discoverResources site_env site_config site_crawler [3] ''<html>'' site_page))
     = [Some ''https://x/y'', None]"
  using C4_no_duplicates_set_stable [OF site_discovery [of "[]"] site_discovery [of "[3]"]]
  by (simp add: site_resources)

text \<open>
  C2. On an HTML page of the crawl's own host the engine's link discovery returns
  \<open>mailto:a@b.com\<close>, \<open>https://x/y\<close> and \<open>mailto:c@d.com\<close>. The comment above the mapping
  says that it removes the mailto URLs; the mapping puts \<open>null\<close> in their place and
  nothing takes it out again, so \<open>discoverResources\<close> returns \<open>null\<close> and \<open>https://x/y\<close>,
  and not \<open>https://x/y\<close> alone.
\<close>

theorem C2_null_in_returned_list:
  "oldDiscoverResources site_env
     (html site_env (remove_pre_code_svg (cheerio_load site_env (replace_URLs ''<html>''))))
     site_page = [''mailto:a@b.com'', ''https://x/y'', ''mailto:c@d.com'']
   \<and> map_sum id snd
       (discoverResources site_env site_config site_crawler [] ''<html>'' site_page)
     = Inr [None, Some ''https://x/y'']
   \<and> set [None, Some ''https://x/y''] \<noteq> {Some ''https://x/y''}"
proof -
  have "map_sum id snd
       (discoverResources site_env site_config site_crawler [] ''<html>'' site_page)
     = Inr (snd (projr (discoverResources site_env site_config site_crawler [] ''<html>''
                          site_page)))"
    by (subst site_discovery) simp
  then have "map_sum id snd
       (discoverResources site_env site_config site_crawler [] ''<html>'' site_page)
     = Inr [None, Some ''https://x/y'']"
    by (simp add: site_resources)
  moreover have "oldDiscoverResources site_env
     (html site_env (remove_pre_code_svg (cheerio_load site_env (replace_URLs ''<html>''))))
     site_page = [''mailto:a@b.com'', ''https://x/y'', ''mailto:c@d.com'']"
    by (simp add: site_env_def)
  ultimately show ?thesis
    by simp
qed

section \<open>Properties of the orchestrator\<close>

text \<open>
  C5. Installed on an engine without other fetch conditions, the filter lets a URL be
  fetched exactly when (there is no exclude pattern, or the pattern matcher finds no
  exclude pattern for the URL) and (there is no include pattern, or the pattern matcher
  finds an include pattern for it). A pattern list that is absent or empty counts as no
  pattern; a pattern is found when \<open>getFirstMatchingPattern\<close> returns a truthy value. With
  no exclude and no include pattern nothing is installed, and every URL passes.
\<close>

theorem C5_fetch_filter:
  assumes "fetchConditions crawler = []"
    and "installed = fetchConditions (initIncludeExcludePatterns env config crawler)"
  shows "(fst (evaluateFetchConditions installed parsedURL) \<longleftrightarrow>
            (\<not> hasPatterns (excludePatterns config)
               \<or> \<not> truthy (getFirstMatchingPattern env (excludePatterns config) (url parsedURL)
                              (rootUrl config)))
            \<and> (\<not> hasPatterns (includePatterns config)
                 \<or> truthy (getFirstMatchingPattern env (includePatterns config) (url parsedURL)
                             (rootUrl config))))
         \<and> (\<not> hasPatterns (excludePatterns config) \<and> \<not> hasPatterns (includePatterns config)
              \<longrightarrow> installed = [] \<and> evaluateFetchConditions installed parsedURL = (True, []))
         \<and> (hasPatterns (excludePatterns config) \<or> hasPatterns (includePatterns config)
              \<longrightarrow> installed =
                    [fetchCondition env config (hasPatterns (excludePatterns config))
                       (hasPatterns (includePatterns config))])"
proof (cases "hasPatterns (excludePatterns config) \<or> hasPatterns (includePatterns config)")
  case True
  with assms have "installed =
      [fetchCondition env config (hasPatterns (excludePatterns config))
         (hasPatterns (includePatterns config))]"
    by (auto simp add: initIncludeExcludePatterns_def)
  with True show ?thesis
    by (simp only: evaluate_single fst_fetchCondition) blast
next
  case False
  with assms have "installed = []"
    by (simp add: initIncludeExcludePatterns_def)
  with False show ?thesis
    by simp
qed

theorem C5_fetch_filter_witness:
  "\<not> fst (evaluateFetchConditions
            (fetchConditions (initIncludeExcludePatterns site_env site_config site_crawler))
            (site_page\<lparr>url := ''/private/secret''\<rparr>))
   \<and> \<not> fst (evaluateFetchConditions
            (fetchConditions (initIncludeExcludePatterns site_env site_config site_crawler))
            (site_page\<lparr>url := ''/other''\<rparr>))
   \<and> fst (evaluateFetchConditions
            (fetchConditions (initIncludeExcludePatterns site_env site_config site_crawler))
            (site_page\<lparr>url := ''/public/index.html''\<rparr>))
   \<and> evaluateFetchConditions
        (fetchConditions
           (initIncludeExcludePatterns site_env
              (site_config\<lparr>excludePatterns := Some [], includePatterns := None\<rparr>) site_crawler))
        (site_page\<lparr>url := ''/private/secret''\<rparr>) = (True, [])"
proof -
  have none: "fetchConditions site_crawler = []"
    by (simp add: site_crawler_def)
  note c5 = C5_fetch_filter [OF none refl, where env = site_env, THEN conjunct1]
  note c5' = C5_fetch_filter [OF none refl, where env = site_env, THEN conjunct2, THEN conjunct1]
  have has: "hasPatterns (excludePatterns site_config)" "hasPatterns (includePatterns site_config)"
    "\<not> hasPatterns (excludePatterns
          (site_config\<lparr>excludePatterns := Some [], includePatterns := None\<rparr>))"
    "\<not> hasPatterns (includePatterns
          (site_config\<lparr>excludePatterns := Some [], includePatterns := None\<rparr>))"
    by (simp_all add: hasPatterns_def site_config_def)
  have excl:
    "truthy (getFirstMatchingPattern site_env (excludePatterns site_config) ''/private/secret''
               (rootUrl site_config))"
    "\<not> truthy (getFirstMatchingPattern site_env (excludePatterns site_config) ''/other''
               (rootUrl site_config))"
    "\<not> truthy (getFirstMatchingPattern site_env (excludePatterns site_config)
               ''/public/index.html'' (rootUrl site_config))"
    by (simp_all add: site_env_def site_config_def truthy_def)
  have incl:
    "\<not> truthy (getFirstMatchingPattern site_env (includePatterns site_config) ''/other''
               (rootUrl site_config))"
    "truthy (getFirstMatchingPattern site_env (includePatterns site_config)
               ''/public/index.html'' (rootUrl site_config))"
    by (simp_all add: site_env_def site_config_def truthy_def)
  have "\<not> fst (evaluateFetchConditions
            (fetchConditions (initIncludeExcludePatterns site_env site_config site_crawler))
            (site_page\<lparr>url := ''/private/secret''\<rparr>))"
    using c5 [of site_config "site_page\<lparr>url := ''/private/secret''\<rparr>"] has excl
    by simp
  moreover have "\<not> fst (evaluateFetchConditions
            (fetchConditions (initIncludeExcludePatterns site_env site_config site_crawler))
            (site_page\<lparr>url := ''/other''\<rparr>))"
    using c5 [of site_config "site_page\<lparr>url := ''/other''\<rparr>"] has incl
    by simp
  moreover have "fst (evaluateFetchConditions
            (fetchConditions (initIncludeExcludePatterns site_env site_config site_crawler))
            (site_page\<lparr>url := ''/public/index.html''\<rparr>))"
    using c5 [of site_config "site_page\<lparr>url := ''/public/index.html''\<rparr>"] has excl incl
    by simp
  moreover have "evaluateFetchConditions
        (fetchConditions
           (initIncludeExcludePatterns site_env
              (site_config\<lparr>excludePatterns := Some [], includePatterns := None\<rparr>) site_crawler))
        (site_page\<lparr>url := ''/private/secret''\<rparr>) = (True, [])"
    using c5' [of "site_config\<lparr>excludePatterns := Some [], includePatterns := None\<rparr>"
                  "site_page\<lparr>url := ''/private/secret''\<rparr>"] has
    by blast
  ultimately show ?thesis by blast
qed

text \<open>
  C7. When the parsed seed URL lacks a protocol, a hostname or a path (the field is
  absent or empty), \<open>initCrawler\<close> throws \<open>Invalid URL\<close>, and so does \<open>crawl\<close>, with the
  process untouched: no engine has been constructed, no timer set, nothing started. When
  the seed has all three, neither \<open>initCrawler\<close> nor \<open>crawl\<close> throws that error.
\<close>

theorem C7_seed_url_validated:
  "(\<not> has_protocol_hostname_path (URL_parse env myUrl) \<longrightarrow>
      initCrawler env myUrl config w = (Inl InvalidURL, w)
      \<and> crawl env myUrl config w = (Inl InvalidURL, w))
   \<and> (has_protocol_hostname_path (URL_parse env myUrl) \<longrightarrow>
        fst (initCrawler env myUrl config w) \<noteq> Inl InvalidURL
        \<and> fst (crawl env myUrl config w) \<noteq> Inl InvalidURL)"
proof (intro conjI impI)
  assume bad: "\<not> has_protocol_hostname_path (URL_parse env myUrl)"
  then show "initCrawler env myUrl config w = (Inl InvalidURL, w)"
    by (rule initCrawler_invalid)
  then show "crawl env myUrl config w = (Inl InvalidURL, w)"
    by (simp add: crawl_def)
next
  assume good: "has_protocol_hostname_path (URL_parse env myUrl)"
  then show "fst (initCrawler env myUrl config w) \<noteq> Inl InvalidURL"
    by (rule initCrawler_not_invalid)
  from good show "fst (crawl env myUrl config w) \<noteq> Inl InvalidURL"
    by (rule crawl_not_invalid)
qed

theorem C7_seed_url_validated_witness:
  "crawl site_env ''/about'' site_config fresh_world = (Inl InvalidURL, fresh_world)
   \<and> fst (crawl site_env ''https://site.test/'' site_config fresh_world) \<noteq> Inl InvalidURL
   \<and> fst (crawl site_env ''http://h.test:0/'' site_config fresh_world) \<noteq> Inl InvalidURL"
proof -
  have bad: "\<not> has_protocol_hostname_path (URL_parse site_env ''/about'')"
    by (simp add: has_protocol_hostname_path_def site_env_def truthy_def)
  have good: "has_protocol_hostname_path (URL_parse site_env ''https://site.test/'')"
    "has_protocol_hostname_path (URL_parse site_env ''http://h.test:0/'')"
    by (simp_all add: has_protocol_hostname_path_def site_env_def truthy_def)
  from C7_seed_url_validated [of site_env "''/about''" site_config fresh_world] bad
  have "crawl site_env ''/about'' site_config fresh_world = (Inl InvalidURL, fresh_world)"
    by blast
  moreover
  from C7_seed_url_validated [of site_env "''https://site.test/''" site_config fresh_world]
    good(1)
  have "fst (crawl site_env ''https://site.test/'' site_config fresh_world) \<noteq> Inl InvalidURL"
    by blast
  moreover
  from C7_seed_url_validated [of site_env "''http://h.test:0/''" site_config fresh_world]
    good(2)
  have "fst (crawl site_env ''http://h.test:0/'' site_config fresh_world) \<noteq> Inl InvalidURL"
    by blast
  ultimately show ?thesis by blast
qed

text \<open>
  C3. The handler of the engine's \<open>complete\<close> event does, in this order: it cancels the
  timer whose handle is in \<open>spooledReportTimer\<close> (when there is one), calls the hash
  processor's \<open>findErrors\<close>, calls the logger's \<open>report\<close>, and stores what \<open>report\<close> returned as
  the exit code of the process. No other handler of a crawl calls \<open>findErrors\<close>: after any
  events of a crawl, the number of calls made since \<open>crawl\<close> began is the number of
  \<open>complete\<close> events among them, so a crawl whose engine completes once calls it once.
\<close>

theorem C3_completion_sequence:
  assumes "crawl env myUrl config w0 = (Inr r, w1)"
    and "handle_all env (map (Pair r) events) w1 = Inr w"
    and "cancel = (case spooledReportTimer w of None \<Rightarrow> [] | Some timer \<Rightarrow> [ClearInterval timer])"
  shows "handle env r Complete w = Inr (on_complete env w)
         \<and> trace (on_complete env w) = trace w @ cancel @ [FindErrors, Report]
         \<and> exitCode (on_complete env w) = Some (report env (trace w @ cancel @ [FindErrors]))
         \<and> activeIntervals (on_complete env w)
             = activeIntervals w - set_option (spooledReportTimer w)
         \<and> count_list (trace w) FindErrors
             = count_list (trace w0) FindErrors + count_list events Complete
         \<and> count_list (trace (on_complete env w)) FindErrors
             = count_list (trace w0) FindErrors + count_list events Complete + 1"
proof -
  have h: "handle env r Complete w = Inr (on_complete env w)"
    by (simp add: handle_def)
  have t: "trace (on_complete env w) = trace w @ cancel @ [FindErrors, Report]"
    by (simp add: trace_on_complete assms(3))
  have e: "exitCode (on_complete env w) = Some (report env (trace w @ cancel @ [FindErrors]))"
    by (simp add: on_complete_def clearInterval_def emit_def Let_def assms(3)
        split: option.splits)
  have a: "activeIntervals (on_complete env w)
             = activeIntervals w - set_option (spooledReportTimer w)"
    by (rule world_on_complete)
  from count_FindErrors_handle_all [OF assms(1) assms(2)] crawl_count_FindErrors [OF assms(1)]
  have c: "count_list (trace w) FindErrors
             = count_list (trace w0) FindErrors + count_list events Complete"
    by simp
  have c': "count_list (trace (on_complete env w)) FindErrors
             = count_list (trace w0) FindErrors + count_list events Complete + 1"
    by (simp add: t c assms(3) split: option.splits)
  from h t e a c c' show ?thesis by blast
qed

theorem C3_completion_sequence_witness:
  "trace (on_complete site_env
            (projr (handle_all site_env
                      (map (Pair site_run) [FetchComplete site_page, Fetch404 image_item])
                      (snd (crawl site_env ''https://site.test/'' site_config fresh_world)))))
     = [NewSimplecrawler ''https://site.test/'', SetInterval 1 1000, Start,
        LogSuccess site_page, HandleFetchServerError 404 image_item,
        ClearInterval 1, FindErrors, Report]
   \<and> exitCode (on_complete site_env
            (projr (handle_all site_env
                      (map (Pair site_run) [FetchComplete site_page, Fetch404 image_item])
                      (snd (crawl site_env ''https://site.test/'' site_config fresh_world)))))
     = Some 0
   \<and> activeIntervals (on_complete site_env
            (projr (handle_all site_env
                      (map (Pair site_run) [FetchComplete site_page, Fetch404 image_item])
                      (snd (crawl site_env ''https://site.test/'' site_config fresh_world)))))
     = {}"
proof -
  let ?w1 = "snd (crawl site_env ''https://site.test/'' site_config fresh_world)"
  let ?w = "projr (handle_all site_env
                      (map (Pair site_run) [FetchComplete site_page, Fetch404 image_item]) ?w1)"
  have start: "crawl site_env ''https://site.test/'' site_config fresh_world = (Inr site_run, ?w1)"
    by (simp add: site_crawl_run)
  have events: "handle_all site_env
                  (map (Pair site_run) [FetchComplete site_page, Fetch404 image_item]) ?w1
                = Inr ?w"
    unfolding site_events by simp
  have w: "?w = \<lparr>spooledReportTimer = Some 1, activeIntervals = {1}, nextTimer = 2,
                 exitCode = None, tls_DEFAULT_CIPHERS = None,
                 NODE_TLS_REJECT_UNAUTHORIZED = None,
                 trace = [NewSimplecrawler ''https://site.test/'', SetInterval 1 1000, Start,
                          LogSuccess site_page, HandleFetchServerError 404 image_item]\<rparr>"
    unfolding site_events by simp
  have code: "report site_env t = int (length (filter is_title_error t))" for t
    by (simp add: site_env_def)
  from C3_completion_sequence [OF start events refl]
  have "trace (on_complete site_env ?w)
          = trace ?w @ (case spooledReportTimer ?w of None \<Rightarrow> []
                        | Some timer \<Rightarrow> [ClearInterval timer]) @ [FindErrors, Report]"
    and "exitCode (on_complete site_env ?w)
          = Some (report site_env
                    (trace ?w @ (case spooledReportTimer ?w of None \<Rightarrow> []
                                 | Some timer \<Rightarrow> [ClearInterval timer]) @ [FindErrors]))"
    and "activeIntervals (on_complete site_env ?w)
          = activeIntervals ?w - set_option (spooledReportTimer ?w)"
    by blast+
  then show ?thesis
    unfolding w by (simp add: code is_title_error_def)
qed

text \<open>
  C10. \<open>spooledReportTimer\<close> is one variable of the module. When a second \<open>crawl\<close> with a
  positive \<open>reportSpoolInterval\<close> starts before the first crawl has completed, the
  variable holds the second timer from then on; whatever events of whichever crawl
  follow, the first timer stays active, and a \<open>complete\<close> event cancels the second.
\<close>

theorem C10_shared_timer_handle:
  assumes "crawl env url1 config1 w0 = (Inr r1, w1)"
    and "reportSpoolInterval config1 = Some ms1" and "0 < ms1"
    and "handle_all env between w1 = Inr w1'" and "Complete \<notin> snd ` set between"
    and "crawl env url2 config2 w1' = (Inr r2, w2)"
    and "reportSpoolInterval config2 = Some ms2" and "0 < ms2"
    and "handle_all env schedule w2 = Inr w3"
  shows "spooledReportTimer w1 = Some (nextTimer w0)
         \<and> spooledReportTimer w2 = Some (Suc (nextTimer w0))
         \<and> spooledReportTimer w3 = Some (Suc (nextTimer w0))
         \<and> nextTimer w0 \<in> activeIntervals w2
         \<and> nextTimer w0 \<in> activeIntervals w3
         \<and> (Complete \<in> snd ` set schedule \<longrightarrow> Suc (nextTimer w0) \<notin> activeIntervals w3)"
proof -
  note first = crawl_timers [OF assms(1-3)]
  from handle_all_timers [OF assms(4)] assms(5)
  have between: "spooledReportTimer w1' = spooledReportTimer w1"
    "nextTimer w1' = nextTimer w1" "activeIntervals w1' = activeIntervals w1"
    by simp_all
  note second = crawl_timers [OF assms(6-8)]
  from handle_all_timers [OF assms(9)]
  have after: "spooledReportTimer w3 = spooledReportTimer w2"
    "activeIntervals w3 =
       (if Complete \<in> snd ` set schedule
        then activeIntervals w2 - set_option (spooledReportTimer w2)
        else activeIntervals w2)"
    by simp_all
  have handle2: "spooledReportTimer w2 = Some (Suc (nextTimer w0))"
    by (simp add: second(1) between(2) first(3))
  have active2: "activeIntervals w2 =
      insert (Suc (nextTimer w0)) (insert (nextTimer w0) (activeIntervals w0))"
    by (simp add: second(2) between(2,3) first(2,3))
  have "nextTimer w0 \<in> activeIntervals w3"
    by (simp add: after(2) active2 handle2)
  moreover have "Complete \<in> snd ` set schedule \<longrightarrow> Suc (nextTimer w0) \<notin> activeIntervals w3"
    by (simp add: after(2) handle2)
  ultimately show ?thesis
    by (simp add: first(1) handle2 after(1) active2)
qed

theorem C10_shared_timer_handle_witness:
  "activeIntervals
     (projr (handle_all site_env [(site_run, Complete), (site_run, Complete)]
               (snd (crawl site_env ''https://site.test/'' site_config
                       (snd (crawl site_env ''https://site.test/'' site_config fresh_world))))))
     = {1}
   \<and> spooledReportTimer
       (projr (handle_all site_env [(site_run, Complete), (site_run, Complete)]
                 (snd (crawl site_env ''https://site.test/'' site_config
                         (snd (crawl site_env ''https://site.test/'' site_config
                                 fresh_world))))))
     = Some 2"
proof -
  let ?w1 = "snd (crawl site_env ''https://site.test/'' site_config fresh_world)"
  let ?w2 = "snd (crawl site_env ''https://site.test/'' site_config ?w1)"
  let ?w3 = "projr (handle_all site_env [(site_run, Complete), (site_run, Complete)] ?w2)"
  have first: "crawl site_env ''https://site.test/'' site_config fresh_world = (Inr site_run, ?w1)"
    by (simp add: site_crawl_run)
  have second: "crawl site_env ''https://site.test/'' site_config ?w1 = (Inr site_run, ?w2)"
    by (simp add: site_crawl_run)
  have interval: "reportSpoolInterval site_config = Some 1000" "(0::int) < 1000"
    by (simp_all add: site_config_def)
  have between: "handle_all site_env [] ?w1 = Inr ?w1" "Complete \<notin> snd ` set []"
    by simp_all
  have after: "handle_all site_env [(site_run, Complete), (site_run, Complete)] ?w2 = Inr ?w3"
    by (simp add: handle_def)
  have completes: "Complete \<in> snd ` set [(site_run, Complete), (site_run, Complete)]"
    by simp
  have w2: "activeIntervals ?w2 = {1, 2}"
    by (auto simp add: site_crawl_run fresh_world_def)
  define A where "A = activeIntervals ?w3"
  define h where "h = spooledReportTimer ?w3"
  from handle_all_timers [OF after] have "A \<subseteq> activeIntervals ?w2"
    unfolding A_def by (auto split: if_splits)
  then have sub: "A \<subseteq> {1, 2}"
    unfolding w2 .
  have fresh: "nextTimer fresh_world = 1"
    by (simp add: fresh_world_def)
  from C10_shared_timer_handle
         [OF first interval between second interval after] completes
  have "h = Some (Suc (nextTimer fresh_world))"
    and "nextTimer fresh_world \<in> A"
    and "Suc (nextTimer fresh_world) \<notin> A"
    unfolding A_def h_def by blast+
  then have "h = Some 2" and "1 \<in> A" and "2 \<notin> A"
    unfolding fresh by (simp_all add: numeral_2_eq_2)
  with sub have "A = {1} \<and> h = Some 2"
    by auto
  then show ?thesis
    unfolding A_def h_def .
qed

end
